theory Spec2Isabelle
  imports Complex_Main "HOL-Library.AList" "HOL-Library.Sublist"
begin

section \<open>Python values, dictionaries and exceptions\<close>

text \<open>
  The routing and dispatch services are Python programs whose only shared state is the
  filesystem. The embedding keeps three things explicit: the values the code passes around
  (strings, numbers, \<open>None\<close>, \<open>Path\<close> objects), the exceptions it can raise, and the world
  it acts on (the filesystem and the sequence of externally visible actions).

  A path is the list of its components, so \<open>Path(folder) / "sent.txt"\<close> is
  \<open>folder @ [''sent.txt'']\<close> and a string concatenation
  \<open>incoming + '/' + name\<close> is \<open>incoming @ [name]\<close>; file names are taken not to
  contain the separator.
\<close>

datatype py_error =
    IndexError | KeyError | TypeError | AttributeError
  | FileNotFoundError | FileExistsError | NotADirectoryError | IsADirectoryError
  | SameFileError | ShutilError | JSONDecodeError

type_synonym path = "string list"

datatype pyval = PNone | PInt int | PFloat real | PStr string | PPath path

text \<open>A Python \<open>dict\<close> keeps insertion order; assigning to a present key keeps its place.\<close>

type_synonym dict = "(string \<times> pyval) list"

definition dict_get :: "dict \<Rightarrow> string \<Rightarrow> pyval \<Rightarrow> pyval" where
  "dict_get d k dflt = (case map_of d k of None \<Rightarrow> dflt | Some v \<Rightarrow> v)"

definition dict_item :: "dict \<Rightarrow> string \<Rightarrow> py_error + pyval" where
  "dict_item d k = (case map_of d k of None \<Rightarrow> Inl KeyError | Some v \<Rightarrow> Inr v)"

definition dict_set :: "dict \<Rightarrow> string \<Rightarrow> pyval \<Rightarrow> dict" where
  "dict_set d k v = AList.update k v d"

text \<open>\<open>a + b\<close> and \<open>a >= b\<close> on the numbers a task descriptor can hold.\<close>

fun py_add :: "pyval \<Rightarrow> pyval \<Rightarrow> py_error + pyval" where
  "py_add (PInt a) (PInt b) = Inr (PInt (a + b))"
| "py_add (PInt a) (PFloat b) = Inr (PFloat (real_of_int a + b))"
| "py_add (PFloat a) (PInt b) = Inr (PFloat (a + real_of_int b))"
| "py_add (PFloat a) (PFloat b) = Inr (PFloat (a + b))"
| "py_add _ _ = Inl TypeError"

fun py_ge :: "pyval \<Rightarrow> pyval \<Rightarrow> py_error + bool" where
  "py_ge (PInt a) (PInt b) = Inr (a \<ge> b)"
| "py_ge (PInt a) (PFloat b) = Inr (real_of_int a \<ge> b)"
| "py_ge (PFloat a) (PInt b) = Inr (a \<ge> real_of_int b)"
| "py_ge (PFloat a) (PFloat b) = Inr (a \<ge> b)"
| "py_ge _ _ = Inl TypeError"

section \<open>Events (common/events.py) and the action trace\<close>

datatype hermes_event =
    Hermes_UNKNOWN | Hermes_BOOT | Hermes_SHUTDOWN | Hermes_SHUTDOWN_REQUEST
  | Hermes_CONFIG_UPDATE | Hermes_PROCESSING

datatype series_event =
    Series_UNKNOWN | Series_REGISTERED | Series_ROUTE | Series_DISCARD | Series_DISPATCH
  | Series_CLEAN | Series_ERROR | Series_MOVE | Series_SUSPEND

datatype severity = Severity_INFO | Severity_WARNING | Severity_ERROR | Severity_CRITICAL

text \<open>An f-string is kept as its fragments: literal text and interpolated values.\<close>

datatype frag = Lit string | Val pyval

text \<open>
  Everything the services do to the outside is appended to a trace, in program order:
  the posts of the monitor (common/monitor.py: \<open>send_event\<close>, \<open>send_series_event\<close>,
  which swallow request failures and so never raise), webhook calls, jobs handed to the
  queue, and every filesystem mutation that succeeded.
\<close>

datatype action =
    Send_Event hermes_event severity "frag list"
  | Send_Series_Event series_event pyval pyval pyval pyval
  | Send_Register_Series dict
  | Send_Webhook pyval pyval string
  | Enqueue dict path path path int real
  | Fs_Touch path
  | Fs_Unlink path
  | Fs_Mkdir path
  | Fs_Write path
  | Fs_Move path path
  | Fs_Copy path path

section \<open>The filesystem\<close>

text \<open>
  A file holds either a JSON object (kept parsed) or anything else. The filesystem is an
  association list from paths to nodes; its order stands for the order in which
  \<open>os.scandir\<close> and \<open>glob\<close> enumerate a directory. The root \<open>[]\<close> is a directory.
  Symbolic links, permissions and devices are not modelled.
\<close>

datatype fcontent = Raw string | Json dict

datatype node = Dir | File fcontent

type_synonym fs = "(path \<times> node) list"

record world =
  files :: fs
  trace :: "action list"

datatype 'a outcome = Returns 'a world | Raises py_error world

definition emit :: "action \<Rightarrow> world \<Rightarrow> world" where
  "emit a w = w\<lparr>trace := trace w @ [a]\<rparr>"

definition lookup :: "fs \<Rightarrow> path \<Rightarrow> node option" where
  "lookup f p = (if p = [] then Some Dir else map_of f p)"

definition path_exists :: "fs \<Rightarrow> path \<Rightarrow> bool" where
  "path_exists f p = (lookup f p \<noteq> None)"

definition is_dir :: "fs \<Rightarrow> path \<Rightarrow> bool" where
  "is_dir f p = (lookup f p = Some Dir)"

definition is_file :: "fs \<Rightarrow> path \<Rightarrow> bool" where
  "is_file f p = (case lookup f p of Some (File c) \<Rightarrow> True | _ \<Rightarrow> False)"

definition basename :: "path \<Rightarrow> string" where
  "basename p = (if p = [] then [] else last p)"

text \<open>The error of reaching a path that is not there: its parent is a file, or missing.\<close>

definition missing_error :: "fs \<Rightarrow> path \<Rightarrow> py_error" where
  "missing_error f p =
     (case lookup f (butlast p) of Some (File _) \<Rightarrow> NotADirectoryError | _ \<Rightarrow> FileNotFoundError)"

text \<open>The names in a directory, in enumeration order.\<close>

definition listdir :: "fs \<Rightarrow> path \<Rightarrow> string list" where
  "listdir f d = map (\<lambda>(p, n). last p) (filter (\<lambda>(p, n). p \<noteq> [] \<and> butlast p = d) f)"

text \<open>\<open>Path.touch()\<close>, with its default \<open>exist_ok=True\<close>: an existing path is left alone.\<close>

definition touch :: "path \<Rightarrow> world \<Rightarrow> unit outcome" where
  "touch p w =
     (if path_exists (files w) p then Returns () (emit (Fs_Touch p) w)
      else if is_dir (files w) (butlast p)
        then Returns () (emit (Fs_Touch p) (w\<lparr>files := AList.update p (File (Raw [])) (files w)\<rparr>))
      else Raises (missing_error (files w) p) w)"

text \<open>\<open>Path.unlink()\<close> and \<open>os.remove\<close>.\<close>

definition unlink :: "path \<Rightarrow> world \<Rightarrow> unit outcome" where
  "unlink p w =
     (case lookup (files w) p of
        Some (File c) \<Rightarrow> Returns () (emit (Fs_Unlink p) (w\<lparr>files := AList.delete p (files w)\<rparr>))
      | Some Dir \<Rightarrow> Raises IsADirectoryError w
      | None \<Rightarrow> Raises (missing_error (files w) p) w)"

text \<open>\<open>os.mkdir\<close>.\<close>

definition mkdir :: "path \<Rightarrow> world \<Rightarrow> unit outcome" where
  "mkdir p w =
     (if path_exists (files w) p then Raises FileExistsError w
      else if is_dir (files w) (butlast p)
        then Returns () (emit (Fs_Mkdir p) (w\<lparr>files := AList.update p Dir (files w)\<rparr>))
      else Raises (missing_error (files w) p) w)"

text \<open>\<open>open(p, "r")\<close> followed by \<open>json.load\<close>.\<close>

definition read_json :: "path \<Rightarrow> world \<Rightarrow> dict outcome" where
  "read_json p w =
     (case lookup (files w) p of
        None \<Rightarrow> Raises (missing_error (files w) p) w
      | Some Dir \<Rightarrow> Raises IsADirectoryError w
      | Some (File (Raw s)) \<Rightarrow> Raises JSONDecodeError w
      | Some (File (Json d)) \<Rightarrow> Returns d w)"

text \<open>\<open>open(p, "w")\<close> followed by \<open>json.dump\<close> of a dictionary of JSON scalars.\<close>

definition write_json :: "path \<Rightarrow> dict \<Rightarrow> world \<Rightarrow> unit outcome" where
  "write_json p d w =
     (if is_dir (files w) p then Raises IsADirectoryError w
      else if is_dir (files w) (butlast p)
        then Returns () (emit (Fs_Write p) (w\<lparr>files := AList.update p (File (Json d)) (files w)\<rparr>))
      else Raises (missing_error (files w) p) w)"

text \<open>
  \<open>shutil.move(src, dst)\<close>. A destination that is a directory receives the source under
  its own name, and refuses when that name is taken. Otherwise the source is renamed; a
  file replaces a file, a directory cannot replace a file, and a directory whose
  destination parents are missing is copied there by \<open>copytree\<close>, which creates them.
\<close>

definition rebase :: "path \<Rightarrow> path \<Rightarrow> path \<Rightarrow> path" where
  "rebase src dst p = (if prefix src p then dst @ drop (length src) p else p)"

definition rename_tree :: "path \<Rightarrow> path \<Rightarrow> fs \<Rightarrow> fs" where
  "rename_tree src dst f = map (\<lambda>(p, n). (rebase src dst p, n)) f"

definition proper_ancestors :: "path \<Rightarrow> path list" where
  "proper_ancestors p = filter (\<lambda>q. q \<noteq> [] \<and> q \<noteq> p) (prefixes p)"

definition makedirs_parents :: "path \<Rightarrow> fs \<Rightarrow> fs" where
  "makedirs_parents p f =
     fold (\<lambda>q g. if path_exists g q then g else AList.update q Dir g) (proper_ancestors p) f"

definition move :: "path \<Rightarrow> path \<Rightarrow> world \<Rightarrow> path outcome" where
  "move src dst w =
     (let f = files w;
          into = is_dir f dst;
          real_dst = (if into then dst @ [basename src] else dst)
      in if into \<and> src = dst then Returns dst w
         else if into \<and> path_exists f real_dst then Raises ShutilError w
         else case lookup f src of
            None \<Rightarrow> Raises (missing_error f src) w
          | Some (File c) \<Rightarrow>
              if is_dir f (butlast real_dst)
              then Returns real_dst
                     (emit (Fs_Move src real_dst)
                        (w\<lparr>files := rename_tree src real_dst (AList.delete real_dst f)\<rparr>))
              else Raises (missing_error f real_dst) w
          | Some Dir \<Rightarrow>
              if path_exists f real_dst then Raises FileExistsError w
              else if prefix src real_dst then Raises ShutilError w
              else if list_ex (is_file f) (proper_ancestors real_dst)
                then Raises NotADirectoryError w
              else Returns real_dst
                     (emit (Fs_Move src real_dst)
                        (w\<lparr>files := rename_tree src real_dst (makedirs_parents real_dst f)\<rparr>)))"

text \<open>\<open>shutil.copy(src, dst)\<close>.\<close>

definition copy :: "path \<Rightarrow> path \<Rightarrow> world \<Rightarrow> path outcome" where
  "copy src dst w =
     (let f = files w;
          real_dst = (if is_dir f dst then dst @ [basename src] else dst)
      in case lookup f src of
            None \<Rightarrow> Raises (missing_error f src) w
          | Some Dir \<Rightarrow> Raises IsADirectoryError w
          | Some (File c) \<Rightarrow>
              if src = real_dst then Raises SameFileError w
              else if is_dir f real_dst then Raises IsADirectoryError w
              else if is_dir f (butlast real_dst)
                then Returns real_dst
                       (emit (Fs_Copy src real_dst)
                          (w\<lparr>files := AList.update real_dst (File c) f\<rparr>))
              else Raises (missing_error f real_dst) w)"

text \<open>\<open>Path(folder).glob("*.dcm")\<close>: the entries of the folder whose name ends in \<open>.dcm\<close>.\<close>

definition glob_dcm :: "fs \<Rightarrow> path \<Rightarrow> string list" where
  "glob_dcm f folder = filter (\<lambda>n. suffix ''.dcm'' n) (listdir f folder)"

section \<open>dispatch/send.py\<close>

definition DCMSEND_ERROR_CODES :: "(int \<times> string) list" where
  "DCMSEND_ERROR_CODES =
     [(1, ''EXITCODE_COMMANDLINE_SYNTAX_ERROR''),
      (21, ''EXITCODE_NO_INPUT_FILES''),
      (22, ''EXITCODE_INVALID_INPUT_FILE''),
      (23, ''EXITCODE_NO_VALID_INPUT_FILES''),
      (43, ''EXITCODE_CANNOT_WRITE_REPORT_FILE''),
      (60, ''EXITCODE_CANNOT_INITIALIZE_NETWORK''),
      (61, ''EXITCODE_CANNOT_NEGOTIATE_ASSOCIATION''),
      (62, ''EXITCODE_CANNOT_SEND_REQUEST''),
      (65, ''EXITCODE_CANNOT_ADD_PRESENTATION_CONTEXT'')]"

text \<open>
  The environment of a transfer: the external \<open>dcmsend\<close> tool, which is given the
  command and the filesystem and leaves an exit code and a filesystem, and the two clock
  readings \<open>time.time()\<close> and \<open>datetime.now().isoformat()\<close>.
\<close>

record env =
  run_command :: "frag list \<Rightarrow> fs \<Rightarrow> int \<times> fs"
  time_now :: real
  iso_now :: string

text \<open>
  \<open>_create_command\<close>: three keys of the task descriptor are read by subscript and raise
  \<open>KeyError\<close> when absent.
\<close>

definition create_command :: "dict \<Rightarrow> path \<Rightarrow> py_error + frag list" where
  "create_command target_info folder =
     (case dict_item target_info ''target_ip'' of Inl e \<Rightarrow> Inl e | Inr target_ip \<Rightarrow>
     (case dict_item target_info ''target_port'' of Inl e \<Rightarrow> Inl e | Inr target_port \<Rightarrow>
     (case dict_item target_info ''target_aet_target'' of Inl e \<Rightarrow> Inl e | Inr target_aet_target \<Rightarrow>
      let target_aet_source = dict_get target_info ''target_aet_source'' (PStr []);
          dcmsend_status_file = folder @ [''sent.txt'']
      in Inr [Lit ''dcmsend '', Val target_ip, Lit '' '', Val target_port, Lit '' +sd '',
              Val (PPath folder), Lit '' -aet '', Val target_aet_source, Lit '' -aec '',
              Val target_aet_target, Lit '' -nuc +sp *.dcm -to 60 +crf '',
              Val (PPath dcmsend_status_file)])))"

text \<open>
  \<open>_move_sent_directory\<close>: every exception of the move is caught and reported. The
  argument \<open>stamp\<close> is the value of \<open>datetime.now().isoformat()\<close>.
\<close>

definition move_sent_directory :: "string \<Rightarrow> path \<Rightarrow> path \<Rightarrow> world \<Rightarrow> world" where
  "move_sent_directory stamp source_folder destination_folder w =
     (let name = basename source_folder;
          attempt =
            (if path_exists (files w) (destination_folder @ [name])
             then let target_folder = destination_folder @ [name @ ''_'' @ stamp]
                  in (case move source_folder target_folder w of
                        Raises x w1 \<Rightarrow> Raises x w1
                      | Returns r w1 \<Rightarrow> unlink (target_folder @ [''.sending'']) w1)
             else (case move source_folder (destination_folder @ [name]) w of
                     Raises x w1 \<Rightarrow> Raises x w1
                   | Returns r w1 \<Rightarrow> unlink (destination_folder @ [name, ''.sending'']) w1))
      in case attempt of
           Returns u w2 \<Rightarrow> w2
         | Raises x w2 \<Rightarrow>
             emit (Send_Event Hermes_PROCESSING Severity_ERROR
                     [Lit ''Error moving '', Val (PPath source_folder), Lit '' to '',
                      Val (PPath destination_folder)]) w2)"

text \<open>
  \<open>_increase_retry\<close>: the descriptor is read and updated in memory; it is written back
  only when the new counter is below \<open>retry_max\<close>.
\<close>

definition increase_retry :: "env \<Rightarrow> path \<Rightarrow> int \<Rightarrow> real \<Rightarrow> world \<Rightarrow> bool outcome" where
  "increase_retry e source_folder retry_max retry_delay w =
     (let target_json_path = source_folder @ [''target.json'']
      in case read_json target_json_path w of
           Raises x w1 \<Rightarrow> Raises x w1
         | Returns target_json w1 \<Rightarrow>
            (case py_add (dict_get target_json ''retries'' (PInt 0)) (PInt 1) of
               Inl x \<Rightarrow> Raises x w1
             | Inr retries \<Rightarrow>
                let target_json1 = dict_set target_json ''retries'' retries;
                    target_json2 = dict_set target_json1 ''next_retry_at''
                                     (PFloat (time_now e + retry_delay))
                in (case py_ge retries (PInt retry_max) of
                      Inl x \<Rightarrow> Raises x w1
                    | Inr True \<Rightarrow> Returns False w1
                    | Inr False \<Rightarrow>
                        (case write_json target_json_path target_json2 w1 of
                           Raises x w2 \<Rightarrow> Raises x w2
                         | Returns u w2 \<Rightarrow> Returns True w2))))"

text \<open>
  \<open>execute\<close>. \<open>run(..., check=True)\<close> raises \<open>CalledProcessError\<close> exactly when the exit
  code is not 0. The body of the \<open>except CalledProcessError\<close> clause is
  \<open>except_CalledProcessError\<close>.
\<close>

definition except_CalledProcessError ::
  "env \<Rightarrow> int \<Rightarrow> pyval \<Rightarrow> pyval \<Rightarrow> path \<Rightarrow> path \<Rightarrow> int \<Rightarrow> real \<Rightarrow> world \<Rightarrow> unit outcome" where
  "except_CalledProcessError e returncode series_uid target_name source_folder error_folder
       retry_max retry_delay w1 =
     (let dcmsend_error_message =
            (case map_of DCMSEND_ERROR_CODES returncode of None \<Rightarrow> PNone | Some s \<Rightarrow> PStr s);
          w2 = emit (Send_Event Hermes_PROCESSING Severity_ERROR
                       [Lit ''Error sending '', Val series_uid, Lit '' to '', Val target_name]) w1;
          w3 = emit (Send_Series_Event Series_ERROR series_uid (PInt 0) target_name
                       dcmsend_error_message) w2
      in (case increase_retry e source_folder retry_max retry_delay w3 of
            Raises x w4 \<Rightarrow> Raises x w4
          | Returns True w4 \<Rightarrow> unlink (source_folder @ [''.sending'']) w4
          | Returns False w4 \<Rightarrow>
              let w5 = emit (Send_Series_Event Series_SUSPEND series_uid (PInt 0)
                               target_name (PStr ''Max retries reached'')) w4;
                  w6 = move_sent_directory (iso_now e) source_folder error_folder w5;
                  w7 = emit (Send_Series_Event Series_MOVE series_uid (PInt 0)
                               (PPath error_folder) (PStr [])) w6;
                  w8 = emit (Send_Event Hermes_PROCESSING Severity_ERROR
                               [Lit ''Series suspended after reaching max retries'']) w7
              in Returns () w8))"

definition execute ::
  "env \<Rightarrow> dict \<Rightarrow> path \<Rightarrow> path \<Rightarrow> path \<Rightarrow> int \<Rightarrow> real \<Rightarrow> world \<Rightarrow> unit outcome" where
  "execute e target_info source_folder success_folder error_folder retry_max retry_delay w =
     (case create_command target_info source_folder of
        Inl x \<Rightarrow> Raises x w
      | Inr command \<Rightarrow>
         let series_uid = dict_get target_info ''series_uid'' (PStr ''series_uid-missing'');
             target_name = dict_get target_info ''target_name'' (PStr ''target_name-missing'');
             ran = run_command e command (files w);
             returncode = fst ran;
             w1 = w\<lparr>files := snd ran\<rparr>
         in if returncode = 0 then
              let file_count = int (length (glob_dcm (files w1) source_folder))
              in Returns ()
                   (emit (Send_Series_Event Series_DISPATCH series_uid (PInt file_count)
                            target_name (PStr [])) w1)
            else except_CalledProcessError e returncode series_uid target_name source_folder
                   error_folder retry_max retry_delay w1)"

text \<open>The world an execution ends in, whether it returned or raised.\<close>

definition outcome_world :: "'a outcome \<Rightarrow> world" where
  "outcome_world r = (case r of Returns v w \<Rightarrow> w | Raises x w \<Rightarrow> w)"

subsection \<open>A staged folder used in the examples\<close>

text \<open>
  An outgoing folder \<open>out/f1\<close> with one payload file, its task descriptor and the
  \<open>.sending\<close> sentinel; the transfer tool of \<open>demo_env rc\<close> exits with \<open>rc\<close> and writes
  nothing.
\<close>

definition demo_env :: "int \<Rightarrow> env" where
  "demo_env rc = \<lparr>run_command = (\<lambda>c f. (rc, f)), time_now = 1000, iso_now = ''T''\<rparr>"

definition demo_info :: dict where
  "demo_info = [(''target_ip'', PStr ''h''), (''target_port'', PInt 104),
                (''target_aet_target'', PStr ''R''), (''target_name'', PStr ''t1''),
                (''series_uid'', PStr ''ABC''), (''retries'', PInt 1)]"

definition demo_fs :: fs where
  "demo_fs = [([''out''], Dir), ([''ok''], Dir), ([''err''], Dir),
              ([''out'', ''f1''], Dir),
              ([''out'', ''f1'', ''a.dcm''], File (Raw [])),
              ([''out'', ''f1'', ''target.json''], File (Json demo_info)),
              ([''out'', ''f1'', ''.sending''], File (Raw []))]"

definition demo_world :: world where
  "demo_world = \<lparr>files = demo_fs, trace = []\<rparr>"

section \<open>routing/process_series.py\<close>

text \<open>
  The configuration (\<open>config.hermes\<close>, \<open>config.mercure\<close>) as the two routing modules read
  it: folder names, which they use as \<open>str\<close>, and the rule and target dictionaries.
\<close>

record config =
  cfg_incoming_folder :: path
  cfg_outgoing_folder :: path
  cfg_success_folder :: path
  cfg_error_folder :: path
  cfg_discard_folder :: path
  cfg_processing_folder :: path
  cfg_retry_max :: int
  cfg_retry_delay :: real
  cfg_rules :: "(string \<times> dict) list"
  cfg_targets :: "(string \<times> dict) list"

text \<open>
  \<open>folder + '/' + name\<close> read as a path: an empty name leaves the folder itself
  (\<open>Path("incoming/")\<close> is \<open>Path("incoming")\<close>).
\<close>

definition str_join :: "path \<Rightarrow> string \<Rightarrow> path" where
  "str_join folder name = (if name = [] then folder else folder @ [name])"

text \<open>\<open>os.scandir\<close>: the names in a directory, or the error of a missing one.\<close>

definition scandir :: "path \<Rightarrow> world \<Rightarrow> string list outcome" where
  "scandir d w =
     (case lookup (files w) d of
        Some Dir \<Rightarrow> Returns (listdir (files w) d) w
      | Some (File c) \<Rightarrow> Raises NotADirectoryError w
      | None \<Rightarrow> Raises (missing_error (files w) d) w)"

subsection \<open>class FileLock\<close>

record file_lock =
  lockCreated :: bool
  lockfile :: path

text \<open>
  \<open>__init__\<close> sets both fields and then touches the file. \<open>free\<close> unlinks it once.
  \<open>__del__\<close> calls \<open>free\<close>; Python ignores what a destructor raises. The destructor is
  taken to run when the function holding the lock is left, by return or by exception.
\<close>

definition FileLock_init :: "path \<Rightarrow> world \<Rightarrow> file_lock outcome" where
  "FileLock_init path_for_lockfile w =
     (case touch path_for_lockfile w of
        Raises x w1 \<Rightarrow> Raises x w1
      | Returns u w1 \<Rightarrow> Returns \<lparr>lockCreated = True, lockfile = path_for_lockfile\<rparr> w1)"

definition FileLock_free :: "file_lock \<Rightarrow> world \<Rightarrow> file_lock outcome" where
  "FileLock_free lock w =
     (if lockCreated lock
      then (case unlink (lockfile lock) w of
              Raises x w1 \<Rightarrow> Raises x w1
            | Returns u w1 \<Rightarrow> Returns (lock\<lparr>lockCreated := False\<rparr>) w1)
      else Returns lock w)"

definition FileLock_del :: "file_lock \<Rightarrow> world \<Rightarrow> world" where
  "FileLock_del lock w = outcome_world (FileLock_free lock w)"

subsection \<open>process_series\<close>

text \<open>
  The stems of the tags files of a series, as both \<open>process_series\<close> and \<open>route_series\<close>
  collect them: names that end in the tags extension, start with \<open>series_UID + "#"\<close> and
  are not directories, cut by the slice \<open>[:-5]\<close>.
\<close>

definition collect_series :: "string \<Rightarrow> string \<Rightarrow> path \<Rightarrow> fs \<Rightarrow> string list" where
  "collect_series tags_ext series_UID incoming f =
     map (\<lambda>n. take (length n - 5) n)
       (filter (\<lambda>n. suffix tags_ext n \<and> prefix (series_UID @ ''#'') n \<and> \<not> is_dir f (incoming @ [n]))
          (listdir f incoming))"

text \<open>
  \<open>process_series\<close>, lines 35 to 65: the lock, the collection of the series and the
  subscript \<open>fileList[0]\<close>, which raises \<open>IndexError\<close> on an empty list. Everything after
  the subscript (lines 66 to 99: reading the tags, rule evaluation, staging, release of
  the lock) is the argument \<open>rest\<close>, which receives the lock, the list and the world.
\<close>

definition process_series ::
  "config \<Rightarrow> (file_lock \<Rightarrow> string list \<Rightarrow> world \<Rightarrow> unit outcome) \<Rightarrow> string \<Rightarrow> world \<Rightarrow> unit outcome" where
  "process_series c rest series_UID w =
     (let lock_file = cfg_incoming_folder c @ [series_UID @ ''.lock'']
      in if path_exists (files w) lock_file then Returns () w
         else (case FileLock_init lock_file w of
                 Raises x w1 \<Rightarrow>
                   Returns ()
                     (emit (Send_Event Hermes_PROCESSING Severity_ERROR
                              [Lit ''Unable to create lock file '', Val (PPath lock_file)]) w1)
               | Returns lock w1 \<Rightarrow>
                   (case scandir (cfg_incoming_folder c) w1 of
                      Raises x w2 \<Rightarrow> Raises x (FileLock_del lock w2)
                    | Returns entries w2 \<Rightarrow>
                        let fileList = collect_series ''.tags'' series_UID
                                         (cfg_incoming_folder c) (files w2)
                        in (case fileList of
                              [] \<Rightarrow> Raises IndexError (FileLock_del lock w2)
                            | first # others \<Rightarrow> rest lock fileList w2))))"

subsection \<open>process_error_files\<close>

text \<open>
  One turn of the loop of \<open>process_error_files\<close> for a locked error file: the two moves
  and the release. An exception leaves the function, and the destructor of the lock runs.
\<close>

definition quarantine_one :: "config \<Rightarrow> string \<Rightarrow> file_lock \<Rightarrow> world \<Rightarrow> unit outcome" where
  "quarantine_one c name lock w1 =
     (case move (cfg_incoming_folder c @ [name]) (cfg_error_folder c @ [name]) w1 of
        Raises x w2 \<Rightarrow> Raises x (FileLock_del lock w2)
      | Returns r w2 \<Rightarrow>
          let dicom_filename = take (length name - 6) name;
              dicom_file = str_join (cfg_incoming_folder c) dicom_filename
          in (case (if path_exists (files w2) dicom_file
                    then move dicom_file (str_join (cfg_error_folder c) dicom_filename) w2
                    else Returns dicom_file w2) of
                Raises x w3 \<Rightarrow> Raises x (FileLock_del lock w3)
              | Returns r3 w3 \<Rightarrow>
                  (case FileLock_free lock w3 of
                     Raises x w4 \<Rightarrow> Raises x (FileLock_del lock w4)
                   | Returns lock4 w4 \<Rightarrow> Returns () w4)))"

fun process_error_loop :: "config \<Rightarrow> string list \<Rightarrow> nat \<Rightarrow> world \<Rightarrow> nat outcome" where
  "process_error_loop c [] error_files_found w = Returns error_files_found w"
| "process_error_loop c (name # entries) error_files_found w =
     (if suffix ''.error'' name \<and> \<not> is_dir (files w) (cfg_incoming_folder c @ [name])
      then let lock_file = cfg_incoming_folder c @ [name @ ''.lock'']
           in if path_exists (files w) lock_file
              then process_error_loop c entries error_files_found w
              else (case FileLock_init lock_file w of
                      Raises x w1 \<Rightarrow> process_error_loop c entries error_files_found w1
                    | Returns lock w1 \<Rightarrow>
                        (case quarantine_one c name lock w1 of
                           Raises x w2 \<Rightarrow> Raises x w2
                         | Returns u w2 \<Rightarrow>
                             process_error_loop c entries (error_files_found + 1) w2))
      else process_error_loop c entries error_files_found w)"

definition process_error_files :: "config \<Rightarrow> world \<Rightarrow> unit outcome" where
  "process_error_files c w =
     (case scandir (cfg_incoming_folder c) w of
        Raises x w1 \<Rightarrow> Raises x w1
      | Returns entries w1 \<Rightarrow>
          (case process_error_loop c entries 0 w1 of
             Raises x w2 \<Rightarrow> Raises x w2
           | Returns error_files_found w2 \<Rightarrow>
               if error_files_found > 0
               then Returns ()
                      (emit (Send_Event Hermes_PROCESSING Severity_ERROR
                               [Lit ''Error parsing '', Val (PInt (int error_files_found)),
                                Lit '' incoming files'']) w2)
               else Returns () w2))"

section \<open>routing/route_series.py\<close>

text \<open>
  The names of \<open>common.constants\<close> that this module uses are not part of the sources at
  hand; they are the fields of \<open>constants\<close>. \<open>helper.FileLock\<close> is taken to be the class
  \<open>FileLock\<close> above.
\<close>

record constants =
  names_LOCK :: string
  names_TAGS :: string
  names_DCM :: string
  names_TASKFILE :: string
  rule_ACTION :: string
  rule_ACTION_TRIGGER :: string
  rule_TARGET :: string
  rule_NOTIFICATION_WEBHOOK :: string
  rule_NOTIFICATION_PAYLOAD :: string
  options_SERIES :: string
  options_STUDY :: string
  actions_ROUTE :: string
  actions_PROCESS :: string
  actions_BOTH :: string
  actions_NOTIFICATION :: string
  actions_DISCARD :: string
  events_RECEPTION :: string

text \<open>
  \<open>route_series\<close>, lines 21 to 51, with lines 52 to 91 as the argument \<open>rest\<close>, in the
  same way as \<open>process_series\<close>.
\<close>

definition route_series ::
  "constants \<Rightarrow> config \<Rightarrow> (file_lock \<Rightarrow> string list \<Rightarrow> world \<Rightarrow> unit outcome) \<Rightarrow> string \<Rightarrow> world
     \<Rightarrow> unit outcome" where
  "route_series k c rest series_UID w =
     (let lock_file = cfg_incoming_folder c @ [series_UID @ names_LOCK k]
      in if path_exists (files w) lock_file then Returns () w
         else (case FileLock_init lock_file w of
                 Raises x w1 \<Rightarrow>
                   Returns ()
                     (emit (Send_Event Hermes_PROCESSING Severity_ERROR
                              [Lit ''Unable to create lock file '', Val (PPath lock_file)]) w1)
               | Returns lock w1 \<Rightarrow>
                   (case scandir (cfg_incoming_folder c) w1 of
                      Raises x w2 \<Rightarrow> Raises x (FileLock_del lock w2)
                    | Returns entries w2 \<Rightarrow>
                        let fileList = collect_series (names_TAGS k) series_UID
                                         (cfg_incoming_folder c) (files w2)
                        in (case fileList of
                              [] \<Rightarrow> Raises IndexError (FileLock_del lock w2)
                            | first # others \<Rightarrow> rest lock fileList w2))))"

text \<open>
  \<open>route_error_files\<close>. The lock file name is built as
  \<open>config.mercure['incoming_folder'] / entry.name + mercure_names.LOCK\<close>. The folder is
  a \<open>str\<close> (the same function concatenates it with \<open>+ '/' +\<close> two statements later), and
  \<open>str\<close> has no operator \<open>/\<close>: the expression raises \<open>TypeError\<close>.
\<close>

definition str_truediv :: "path \<Rightarrow> string \<Rightarrow> py_error + path" where
  "str_truediv folder name = Inl TypeError"

fun route_error_loop :: "constants \<Rightarrow> config \<Rightarrow> string list \<Rightarrow> nat \<Rightarrow> world \<Rightarrow> nat outcome" where
  "route_error_loop k c [] error_files_found w = Returns error_files_found w"
| "route_error_loop k c (name # entries) error_files_found w =
     (if suffix ''.error'' name \<and> \<not> is_dir (files w) (cfg_incoming_folder c @ [name])
      then (case str_truediv (cfg_incoming_folder c) name of
              Inl x \<Rightarrow> Raises x w
            | Inr joined \<Rightarrow>
                let lock_file = butlast joined @ [last joined @ names_LOCK k]
                in if path_exists (files w) lock_file
                   then route_error_loop k c entries error_files_found w
                   else (case FileLock_init lock_file w of
                           Raises x w1 \<Rightarrow> route_error_loop k c entries error_files_found w1
                         | Returns lock w1 \<Rightarrow>
                             (case quarantine_one c name lock w1 of
                                Raises x w2 \<Rightarrow> Raises x w2
                              | Returns u w2 \<Rightarrow>
                                  route_error_loop k c entries (error_files_found + 1) w2)))
      else route_error_loop k c entries error_files_found w)"

definition route_error_files :: "constants \<Rightarrow> config \<Rightarrow> world \<Rightarrow> unit outcome" where
  "route_error_files k c w =
     (case scandir (cfg_incoming_folder c) w of
        Raises x w1 \<Rightarrow> Raises x w1
      | Returns entries w1 \<Rightarrow>
          (case route_error_loop k c entries 0 w1 of
             Raises x w2 \<Rightarrow> Raises x w2
           | Returns error_files_found w2 \<Rightarrow>
               if error_files_found > 0
               then Returns ()
                      (emit (Send_Event Hermes_PROCESSING Severity_ERROR
                               [Lit ''Error parsing '', Val (PInt (int error_files_found)),
                                Lit '' incoming files'']) w2)
               else Returns () w2))"

subsection \<open>An incoming folder used in the examples\<close>

text \<open>
  The folders of \<open>demo_config\<close> are \<open>in\<close>, \<open>out\<close>, \<open>ok\<close>, \<open>err\<close>, \<open>dis\<close> and \<open>proc\<close>.
  \<open>demo_incoming\<close> holds one series \<open>XYZ\<close>, an error marker with its payload, and the
  sentinel of a lock that somebody else holds.
\<close>

definition demo_constants :: constants where
  "demo_constants =
     \<lparr>names_LOCK = ''.lock'', names_TAGS = ''.tags'', names_DCM = ''.dcm'',
      names_TASKFILE = ''task.json'', rule_ACTION = ''action'',
      rule_ACTION_TRIGGER = ''action_trigger'', rule_TARGET = ''target'',
      rule_NOTIFICATION_WEBHOOK = ''notification_webhook'',
      rule_NOTIFICATION_PAYLOAD = ''notification_payload'',
      options_SERIES = ''series'', options_STUDY = ''study'',
      actions_ROUTE = ''route'', actions_PROCESS = ''process'', actions_BOTH = ''both'',
      actions_NOTIFICATION = ''notification'', actions_DISCARD = ''discard'',
      events_RECEPTION = ''RECEPTION''\<rparr>"

definition demo_config :: "(string \<times> dict) list \<Rightarrow> (string \<times> dict) list \<Rightarrow> config" where
  "demo_config rules targets =
     \<lparr>cfg_incoming_folder = [''in''], cfg_outgoing_folder = [''out''],
      cfg_success_folder = [''ok''], cfg_error_folder = [''err''],
      cfg_discard_folder = [''dis''], cfg_processing_folder = [''proc''],
      cfg_retry_max = 5, cfg_retry_delay = 60,
      cfg_rules = rules, cfg_targets = targets\<rparr>"

definition demo_incoming :: world where
  "demo_incoming =
     \<lparr>files = [([''in''], Dir), ([''out''], Dir), ([''ok''], Dir), ([''err''], Dir),
               ([''in'', ''XYZ#1.dcm''], File (Raw [])),
               ([''in'', ''XYZ#1.tags''], File (Json [(''Modality'', PStr ''CT'')])),
               ([''in'', ''a.dcm.error''], File (Raw [])),
               ([''in'', ''a.dcm''], File (Raw [])),
               ([''in'', ''held.lock''], File (Raw []))],
      trace = []\<rparr>"

section \<open>dispatcher.py\<close>

text \<open>
  What \<open>dispatch\<close> takes from outside the sources at hand: the three predicates of
  \<open>dispatch.status\<close> (a task descriptor or a falsy value; a boolean; a task descriptor or
  \<open>None\<close>), the termination flag of \<open>helper\<close> before the scan and after each entry, the
  clock readings made while an entry is handled, and the result of \<open>config.read_config()\<close>.
  The metrics calls \<open>helper.g_log\<close> are left out.
\<close>

record dispatcher =
  is_ready_for_sending :: "path \<Rightarrow> fs \<Rightarrow> dict option"
  has_been_send :: "path \<Rightarrow> fs \<Rightarrow> bool"
  is_target_json_valid :: "path \<Rightarrow> fs \<Rightarrow> dict option"
  terminated_at_start :: bool
  terminated_after :: "path \<Rightarrow> bool"
  time_at :: "path \<Rightarrow> real"
  iso_at :: "path \<Rightarrow> string"
  read_config :: "py_error + config"

text \<open>
  The second branch of the scan tests \<open>entry.is_dir\<close> without calling it. That is a bound
  method object, and a method object is true whatever the entry is.
\<close>

definition method_truth :: "(fs \<Rightarrow> path \<Rightarrow> bool) \<Rightarrow> bool" where
  "method_truth m = True"

text \<open>The value of \<open>target_info\<close> when the condition of the first branch holds.\<close>

definition ready_target_info :: "dispatcher \<Rightarrow> path \<Rightarrow> fs \<Rightarrow> dict option" where
  "ready_target_info d entry_path f =
     (if is_dir f entry_path \<and> \<not> has_been_send d entry_path f
      then (case is_ready_for_sending d entry_path f of
              None \<Rightarrow> None
            | Some target_info \<Rightarrow> if target_info = [] then None else Some target_info)
      else None)"

text \<open>The body of the \<open>for\<close> loop of \<open>dispatch\<close>, up to the termination test.\<close>

definition dispatch_entry :: "dispatcher \<Rightarrow> config \<Rightarrow> string \<Rightarrow> world \<Rightarrow> unit outcome" where
  "dispatch_entry d c name w =
     (let entry_path = cfg_outgoing_folder c @ [name]
      in case ready_target_info d entry_path (files w) of
           Some target_info \<Rightarrow>
             let delay = dict_get target_info ''next_retry_at'' (PInt 0)
             in (case py_ge (PFloat (time_at d entry_path)) delay of
                   Inl x \<Rightarrow> Raises x w
                 | Inr False \<Rightarrow> Returns () w
                 | Inr True \<Rightarrow>
                     let series_uid = dict_get target_info ''series_uid'' (PStr ''series_uid-missing'');
                         target_name = dict_get target_info ''target_name'' (PStr ''target_name-missing'');
                         w1 = (if series_uid = PStr ''series_uid-missing''
                                  \<or> target_name = PStr ''target_name-missing''
                               then emit (Send_Event Hermes_PROCESSING Severity_WARNING
                                            [Lit ''Missing information for folder '',
                                             Val (PPath entry_path)]) w
                               else w);
                         lock_file = entry_path @ [''.sending'']
                     in (case touch lock_file w1 of
                           Raises x w2 \<Rightarrow> Raises x w2
                         | Returns u w2 \<Rightarrow>
                             Returns ()
                               (emit (Enqueue target_info entry_path (cfg_success_folder c)
                                        (cfg_error_folder c) (cfg_retry_max c) (cfg_retry_delay c))
                                  w2)))
         | None \<Rightarrow>
             if method_truth is_dir \<and> has_been_send d entry_path (files w)
             then (case is_target_json_valid d entry_path (files w) of
                     None \<Rightarrow> Raises AttributeError w
                   | Some target_json \<Rightarrow>
                       let series_uid = dict_get target_json ''series_uid'' (PStr ''series_uid-missing'');
                           w1 = move_sent_directory (iso_at d entry_path) entry_path
                                  (cfg_success_folder c) w
                       in Returns ()
                            (emit (Send_Series_Event Series_MOVE series_uid (PInt 0)
                                     (PPath (cfg_success_folder c)) (PStr [])) w1))
             else Returns () w)"




fun is_enqueue :: "action \<Rightarrow> bool" where
  "is_enqueue (Enqueue target_info folder sf ef rm rd) = True"
| "is_enqueue a = False"

text \<open>The series events that only a running transfer emits.\<close>

fun transfer_event :: "action \<Rightarrow> bool" where
  "transfer_event (Send_Series_Event Series_DISPATCH u n t x) = True"
| "transfer_event (Send_Series_Event Series_ERROR u n t x) = True"
| "transfer_event (Send_Series_Event Series_SUSPEND u n t x) = True"
| "transfer_event a = False"

text \<open>Actions that neither submit a job nor belong to a running transfer.\<close>

definition quiet :: "action list \<Rightarrow> bool" where
  "quiet xs = (\<forall>a\<in>set xs. \<not> is_enqueue a \<and> \<not> transfer_event a)"


subsection \<open>An outgoing folder used in the examples\<close>

text \<open>
  \<open>out/f1\<close> is staged and ready, \<open>out/f2\<close> has been sent, and \<open>out/stray\<close> is a plain
  file. The predicates of \<open>demo_dispatcher\<close> read the sentinels; the argument says
  whether the sent-check also reports the plain file.
\<close>

definition demo_status_ready :: "path \<Rightarrow> fs \<Rightarrow> dict option" where
  "demo_status_ready p f =
     (if path_exists f (p @ [''.sending'']) \<or> path_exists f (p @ [''.lock''])
      then None
      else (case lookup f (p @ [''target.json'']) of
              Some (File (Json t)) \<Rightarrow> Some t
            | _ \<Rightarrow> None))"

definition demo_status_valid :: "path \<Rightarrow> fs \<Rightarrow> dict option" where
  "demo_status_valid p f =
     (case lookup f (p @ [''target.json'']) of
        Some (File (Json t)) \<Rightarrow> Some t
      | _ \<Rightarrow> Some [])"

definition demo_dispatcher :: "bool \<Rightarrow> dispatcher" where
  "demo_dispatcher stray_sent =
     \<lparr>is_ready_for_sending = demo_status_ready,
      has_been_send = (\<lambda>p f. path_exists f (p @ [''sent.txt''])
                             \<or> (stray_sent \<and> p = [''out'', ''stray''])),
      is_target_json_valid = demo_status_valid,
      terminated_at_start = False,
      terminated_after = (\<lambda>p. False),
      time_at = (\<lambda>p. 2000),
      iso_at = (\<lambda>p. ''T''),
      read_config = Inr (demo_config [] [])\<rparr>"

definition demo_outgoing :: world where
  "demo_outgoing =
     \<lparr>files = [([''out''], Dir), ([''ok''], Dir), ([''err''], Dir),
               ([''out'', ''f1''], Dir),
               ([''out'', ''f1'', ''a.dcm''], File (Raw [])),
               ([''out'', ''f1'', ''target.json''],
                  File (Json [(''target_name'', PStr ''t1''), (''series_uid'', PStr ''ABC''),
                              (''next_retry_at'', PFloat 1060)])),
               ([''out'', ''f2''], Dir),
               ([''out'', ''f2'', ''sent.txt''], File (Raw [])),
               ([''out'', ''f2'', ''.sending''], File (Raw [])),
               ([''out'', ''f2'', ''target.json''],
                  File (Json [(''target_name'', PStr ''t1''), (''series_uid'', PStr ''DEF'')])),
               ([''out'', ''stray''], File (Raw ''x''))],
      trace = []\<rparr>"

section \<open>Series-level staging (routing/route_series.py)\<close>

text \<open>
  What the staging functions take from outside the sources at hand: the fresh name
  \<open>str(uuid.uuid1())\<close> read in a given world, the rule evaluator
  \<open>rule_evaluation.parse_rule\<close>, which may raise, and the task file builder
  \<open>generate_taskfile_route\<close>. \<open>notification.send_webhook\<close> is recorded in the trace.
\<close>

record routing_env =
  uuid1 :: "world \<Rightarrow> string"
  parse_rule :: "pyval \<Rightarrow> dict \<Rightarrow> py_error + bool"
  generate_taskfile_route :: "string \<Rightarrow> string \<Rightarrow> string \<Rightarrow> dict \<Rightarrow> pyval \<Rightarrow> dict"

text \<open>The truth value of a Python value, as \<open>if target:\<close> takes it.\<close>

fun py_truthy :: "pyval \<Rightarrow> bool" where
  "py_truthy PNone = False"
| "py_truthy (PInt n) = (n \<noteq> 0)"
| "py_truthy (PFloat x) = (x \<noteq> 0)"
| "py_truthy (PStr s) = (s \<noteq> [])"
| "py_truthy (PPath p) = True"

text \<open>\<open>config.mercure[mercure_config.RULES][current_rule]\<close>, a subscript.\<close>

definition rule_of :: "config \<Rightarrow> string \<Rightarrow> py_error + dict" where
  "rule_of c current_rule =
     (case map_of (cfg_rules c) current_rule of None \<Rightarrow> Inl KeyError | Some r \<Rightarrow> Inr r)"

definition trigger_serieslevel_notification_reception ::
  "constants \<Rightarrow> config \<Rightarrow> string \<Rightarrow> dict \<Rightarrow> world \<Rightarrow> unit outcome" where
  "trigger_serieslevel_notification_reception k c current_rule tags_list w =
     (case rule_of c current_rule of
        Inl x \<Rightarrow> Raises x w
      | Inr r \<Rightarrow>
          Returns ()
            (emit (Send_Webhook (dict_get r (rule_NOTIFICATION_WEBHOOK k) (PStr []))
                     (dict_get r (rule_NOTIFICATION_PAYLOAD k) (PStr []))
                     (events_RECEPTION k)) w))"

text \<open>\<open>remove_series\<close>: the two removals of a file pair share one \<open>try\<close>.\<close>

fun remove_series :: "constants \<Rightarrow> config \<Rightarrow> string list \<Rightarrow> world \<Rightarrow> world" where
  "remove_series k c [] w = w"
| "remove_series k c (entry # file_list) w =
     (let failed = (\<lambda>w'. emit (Send_Event Hermes_PROCESSING Severity_ERROR
                                   [Lit ''Error while removing file '', Val (PStr entry)]) w')
      in remove_series k c file_list
           (case unlink (cfg_incoming_folder c @ [entry @ names_TAGS k]) w of
              Raises x w1 \<Rightarrow> failed w1
            | Returns u w1 \<Rightarrow>
                (case unlink (cfg_incoming_folder c @ [entry @ names_DCM k]) w1 of
                   Raises x w2 \<Rightarrow> failed w2
                 | Returns u2 w2 \<Rightarrow> w2)))"

text \<open>
  The condition of the notification pass is written \<open>len(triggered_rules==1)\<close>. The
  comparison of a dictionary with 1 is \<open>False\<close>, and \<open>len\<close> of a boolean raises
  \<open>TypeError\<close>.
\<close>

definition dict_eq_int :: "(string \<times> string) list \<Rightarrow> int \<Rightarrow> bool" where
  "dict_eq_int triggered_rules n = False"

definition len_of_bool :: "bool \<Rightarrow> py_error + nat" where
  "len_of_bool b = Inl TypeError"

fun notification_loop ::
  "constants \<Rightarrow> config \<Rightarrow> (string \<times> string) list \<Rightarrow> string list \<Rightarrow> string list \<Rightarrow> dict \<Rightarrow> world
     \<Rightarrow> unit outcome" where
  "notification_loop k c triggered_rules [] file_list tags_list w = Returns () w"
| "notification_loop k c triggered_rules (current_rule # rules) file_list tags_list w =
     (case rule_of c current_rule of
        Inl x \<Rightarrow> Raises x w
      | Inr r \<Rightarrow>
          if dict_get r (rule_ACTION_TRIGGER k) (PStr (options_SERIES k)) = PStr (options_SERIES k)
             \<and> dict_get r (rule_ACTION k) (PStr []) = PStr (actions_NOTIFICATION k)
          then (case trigger_serieslevel_notification_reception k c current_rule tags_list w of
                  Raises x w1 \<Rightarrow> Raises x w1
                | Returns u w1 \<Rightarrow>
                    (case len_of_bool (dict_eq_int triggered_rules 1) of
                       Inl x \<Rightarrow> Raises x w1
                     | Inr n \<Rightarrow>
                         notification_loop k c triggered_rules rules file_list tags_list
                           (if n \<noteq> 0 then remove_series k c file_list w1 else w1)))
          else notification_loop k c triggered_rules rules file_list tags_list w)"

definition push_serieslevel_notification ::
  "constants \<Rightarrow> config \<Rightarrow> (string \<times> string) list \<Rightarrow> string list \<Rightarrow> string \<Rightarrow> dict \<Rightarrow> world
     \<Rightarrow> unit outcome" where
  "push_serieslevel_notification k c triggered_rules file_list series_UID tags_list w =
     notification_loop k c triggered_rules (map fst triggered_rules) file_list tags_list w"

subsection \<open>The routing pass and the staging of outgoing folders\<close>

text \<open>One file pair of the staging loop: move or copy, both in one \<open>try\<close>.\<close>

definition push_pair ::
  "constants \<Rightarrow> bool \<Rightarrow> path \<Rightarrow> path \<Rightarrow> string \<Rightarrow> world \<Rightarrow> world" where
  "push_pair k move_operation source_folder target_folder entry w =
     (let operation = (if move_operation then move else copy);
          failed = (\<lambda>w'. emit (Send_Event Hermes_PROCESSING Severity_ERROR
                                   [Lit ''Problem while pushing file to outgoing '',
                                    Val (PStr entry)]) w')
      in case operation (source_folder @ [entry @ names_DCM k])
                (target_folder @ [entry @ names_DCM k]) w of
           Raises x w1 \<Rightarrow> failed w1
         | Returns r w1 \<Rightarrow>
             (case operation (source_folder @ [entry @ names_TAGS k])
                     (target_folder @ [entry @ names_TAGS k]) w1 of
                Raises x w2 \<Rightarrow> failed w2
              | Returns r2 w2 \<Rightarrow> w2))"

text \<open>
  The body of the loop of \<open>push_serieslevel_outgoing\<close> for one target. It ends in
  \<open>continue\<close> (also when it runs to its end) or in \<open>return\<close>. The variable \<open>lock\<close>
  keeps its object from one turn to the next; binding a new lock destroys the old one.
\<close>

datatype flow = Continue | Return

definition stage_target ::
  "constants \<Rightarrow> config \<Rightarrow> routing_env \<Rightarrow> bool \<Rightarrow> string list \<Rightarrow> string \<Rightarrow> dict
     \<Rightarrow> pyval \<Rightarrow> string \<Rightarrow> file_lock option \<Rightarrow> world \<Rightarrow> flow \<times> file_lock option \<times> world" where
  "stage_target k c e move_operation file_list series_UID tags_list target rule lock w =
     (if \<not> (case target of PStr t \<Rightarrow> map_of (cfg_targets c) t \<noteq> None | _ \<Rightarrow> False)
      then (Continue, lock,
            emit (Send_Event Hermes_PROCESSING Severity_ERROR
                    [Lit ''Invalid target selected '', Val target]) w)
      else
        let folder_name = cfg_outgoing_folder c @ [uuid1 e w]
        in case mkdir folder_name w of
             Raises x w1 \<Rightarrow>
               (Return, lock,
                emit (Send_Event Hermes_PROCESSING Severity_ERROR
                        [Lit ''Unable to create outgoing folder '', Val (PPath folder_name)]) w1)
           | Returns u w1 \<Rightarrow>
               if \<not> path_exists (files w1) folder_name
               then (Return, lock,
                     emit (Send_Event Hermes_PROCESSING Severity_ERROR
                             [Lit ''Creating folder not possible '', Val (PPath folder_name)]) w1)
               else
                 let lock_file = folder_name @ [names_LOCK k]
                 in case FileLock_init lock_file w1 of
                      Raises x w2 \<Rightarrow>
                        (Return, lock,
                         emit (Send_Event Hermes_PROCESSING Severity_ERROR
                                 [Lit ''Unable to create lock file '', Val (PPath lock_file)]) w2)
                    | Returns new_lock w2 \<Rightarrow>
                        let w3 = (case lock of None \<Rightarrow> w2 | Some old \<Rightarrow> FileLock_del old w2);
                            task_filename = folder_name @ [names_TASKFILE k];
                            task_json = generate_taskfile_route e series_UID (options_SERIES k)
                                          rule tags_list target
                        in case write_json task_filename task_json w3 of
                             Raises x w4 \<Rightarrow>
                               (Continue, Some new_lock,
                                emit (Send_Event Hermes_PROCESSING Severity_ERROR
                                        [Lit ''Unable to create task file '',
                                         Val (PPath task_filename)]) w4)
                           | Returns u4 w4 \<Rightarrow>
                               let w5 = emit (Send_Series_Event Series_ROUTE (PStr series_UID)
                                                (PInt (int (length file_list))) target (PStr rule)) w4;
                                   w6 = fold (push_pair k move_operation (cfg_incoming_folder c)
                                                folder_name) file_list w5;
                                   w7 = emit (Send_Series_Event Series_MOVE (PStr series_UID)
                                                (PInt (int (length file_list))) (PPath folder_name)
                                                (PStr [])) w6
                               in case FileLock_free new_lock w7 of
                                    Raises x w8 \<Rightarrow>
                                      (Return, Some new_lock,
                                       emit (Send_Event Hermes_PROCESSING Severity_ERROR
                                               [Lit ''Unable to remove lock file '',
                                                Val (PPath lock_file)]) w8)
                                  | Returns freed w8 \<Rightarrow> (Continue, Some freed, w8))"

fun outgoing_loop ::
  "constants \<Rightarrow> config \<Rightarrow> routing_env \<Rightarrow> bool \<Rightarrow> string list \<Rightarrow> string \<Rightarrow> dict
     \<Rightarrow> (pyval \<times> string) list \<Rightarrow> file_lock option \<Rightarrow> world \<Rightarrow> world" where
  "outgoing_loop k c e move_operation file_list series_UID tags_list [] lock w =
     (case lock of None \<Rightarrow> w | Some l \<Rightarrow> FileLock_del l w)"
| "outgoing_loop k c e move_operation file_list series_UID tags_list ((target, rule) # targets) lock w =
     (case stage_target k c e move_operation file_list series_UID tags_list target rule lock w of
        (Continue, lock1, w1) \<Rightarrow>
          outgoing_loop k c e move_operation file_list series_UID tags_list targets lock1 w1
      | (Return, lock1, w1) \<Rightarrow>
          (case lock1 of None \<Rightarrow> w1 | Some l \<Rightarrow> FileLock_del l w1))"

definition push_serieslevel_outgoing ::
  "constants \<Rightarrow> config \<Rightarrow> routing_env \<Rightarrow> (string \<times> string) list \<Rightarrow> string list \<Rightarrow> string \<Rightarrow> dict
     \<Rightarrow> (pyval \<times> string) list \<Rightarrow> world \<Rightarrow> world" where
  "push_serieslevel_outgoing k c e triggered_rules file_list series_UID tags_list selected_targets w =
     outgoing_loop k c e (length triggered_rules = 1) file_list series_UID tags_list
       selected_targets None w"

text \<open>
  The collection of the routing pass: \<open>selected_targets[target] = current_rule\<close> for
  each series-level ROUTE rule with a target, and the reception webhook of each such rule.
\<close>

fun selected_targets_loop ::
  "constants \<Rightarrow> config \<Rightarrow> string list \<Rightarrow> dict \<Rightarrow> (pyval \<times> string) list \<Rightarrow> world
     \<Rightarrow> (pyval \<times> string) list outcome" where
  "selected_targets_loop k c [] tags_list selected_targets w = Returns selected_targets w"
| "selected_targets_loop k c (current_rule # rules) tags_list selected_targets w =
     (case rule_of c current_rule of
        Inl x \<Rightarrow> Raises x w
      | Inr r \<Rightarrow>
          if dict_get r (rule_ACTION_TRIGGER k) (PStr (options_SERIES k)) = PStr (options_SERIES k)
             \<and> dict_get r (rule_ACTION k) (PStr []) = PStr (actions_ROUTE k)
          then let target = dict_get r (rule_TARGET k) (PStr []);
                   selected1 = (if py_truthy target
                                then AList.update target current_rule selected_targets
                                else selected_targets)
               in (case trigger_serieslevel_notification_reception k c current_rule tags_list w of
                     Raises x w1 \<Rightarrow> Raises x w1
                   | Returns u w1 \<Rightarrow> selected_targets_loop k c rules tags_list selected1 w1)
          else selected_targets_loop k c rules tags_list selected_targets w)"

definition push_serieslevel_routing ::
  "constants \<Rightarrow> config \<Rightarrow> routing_env \<Rightarrow> (string \<times> string) list \<Rightarrow> string list \<Rightarrow> string \<Rightarrow> dict
     \<Rightarrow> world \<Rightarrow> unit outcome" where
  "push_serieslevel_routing k c e triggered_rules file_list series_UID tags_list w =
     (case selected_targets_loop k c (map fst triggered_rules) tags_list [] w of
        Raises x w1 \<Rightarrow> Raises x w1
      | Returns selected_targets w1 \<Rightarrow>
          Returns ()
            (push_serieslevel_outgoing k c e triggered_rules file_list series_UID tags_list
               selected_targets w1))"

text \<open>
  \<open>get_routing_targets\<close> of routing/process_series.py: each rule is evaluated inside a
  \<open>try\<close>; a rule that raises is reported and skipped.
\<close>

fun get_routing_targets_loop ::
  "routing_env \<Rightarrow> (string \<times> dict) list \<Rightarrow> dict \<Rightarrow> (pyval \<times> string) list \<Rightarrow> world
     \<Rightarrow> (pyval \<times> string) list \<times> world" where
  "get_routing_targets_loop e [] tagList selected_targets w = (selected_targets, w)"
| "get_routing_targets_loop e ((current_rule, r) # rules) tagList selected_targets w =
     (if dict_get r ''disabled'' (PStr ''False'') = PStr ''True''
      then get_routing_targets_loop e rules tagList selected_targets w
      else if map_of selected_targets (PStr current_rule) \<noteq> None
      then get_routing_targets_loop e rules tagList selected_targets w
      else (case parse_rule e (dict_get r ''rule'' (PStr ''False'')) tagList of
              Inl x \<Rightarrow>
                get_routing_targets_loop e rules tagList selected_targets
                  (emit (Send_Event Hermes_PROCESSING Severity_ERROR
                           [Lit ''Invalid rule: '', Val (PStr current_rule)]) w)
            | Inr False \<Rightarrow> get_routing_targets_loop e rules tagList selected_targets w
            | Inr True \<Rightarrow>
                let target = dict_get r ''target'' (PStr [])
                in get_routing_targets_loop e rules tagList
                     (if py_truthy target then AList.update target current_rule selected_targets
                      else selected_targets) w))"

definition get_routing_targets ::
  "config \<Rightarrow> routing_env \<Rightarrow> dict \<Rightarrow> world \<Rightarrow> (pyval \<times> string) list \<times> world" where
  "get_routing_targets c e tagList w = get_routing_targets_loop e (cfg_rules c) tagList [] w"

text \<open>The ROUTE events of a trace that name a given target, and the directories made.\<close>

fun route_event_for :: "pyval \<Rightarrow> action \<Rightarrow> bool" where
  "route_event_for t (Send_Series_Event Series_ROUTE u n target x) = (target = t)"
| "route_event_for t a = False"

fun is_mkdir :: "action \<Rightarrow> bool" where
  "is_mkdir (Fs_Mkdir p) = True"
| "is_mkdir a = False"

text \<open>What a step from \<open>w\<close> to \<open>w'\<close> added to the trace, and two counts on it.\<close>

definition trace_added :: "world \<Rightarrow> world \<Rightarrow> action list" where
  "trace_added w w' = drop (length (trace w)) (trace w')"

definition route_count :: "pyval \<Rightarrow> action list \<Rightarrow> nat" where
  "route_count t xs = length (filter (route_event_for t) xs)"

definition mkdir_count :: "action list \<Rightarrow> nat" where
  "mkdir_count xs = length (filter is_mkdir xs)"

text \<open>
  A step is within \<open>(m, r)\<close> for a target when it only appends to the trace, makes at
  most \<open>m\<close> directories and emits at most \<open>r\<close> ROUTE events for the target.
\<close>

definition step_within :: "pyval \<Rightarrow> nat \<Rightarrow> nat \<Rightarrow> world \<Rightarrow> world \<Rightarrow> bool" where
  "step_within t m r w w' =
     (prefix (trace w) (trace w') \<and> mkdir_count (trace_added w w') \<le> m
      \<and> route_count t (trace_added w w') \<le> r)"

subsection \<open>Rules used in the examples\<close>

text \<open>
  \<open>note\<close> is a notification rule; \<open>ra\<close> and \<open>rb\<close> route to the same target \<open>t1\<close>, \<open>rc\<close>
  to \<open>t2\<close>. The series \<open>XYZ\<close> of \<open>demo_incoming\<close> has the single stem \<open>XYZ#1\<close>.
\<close>

definition demo_rules :: "(string \<times> dict) list" where
  "demo_rules =
     [(''note'', [(''action'', PStr ''notification''), (''rule'', PStr ''True''),
                  (''notification_webhook'', PStr ''http://hook'')]),
      (''ra'', [(''action'', PStr ''route''), (''rule'', PStr ''True''), (''target'', PStr ''t1'')]),
      (''rb'', [(''action'', PStr ''route''), (''rule'', PStr ''True''), (''target'', PStr ''t1'')]),
      (''rc'', [(''action'', PStr ''route''), (''rule'', PStr ''True''), (''target'', PStr ''t2'')])]"

definition demo_targets :: "(string \<times> dict) list" where
  "demo_targets =
     [(''t1'', [(''ip'', PStr ''h1''), (''port'', PInt 104)]),
      (''t2'', [(''ip'', PStr ''h2''), (''port'', PInt 104)])]"

definition demo_routing_env :: routing_env where
  "demo_routing_env =
     \<lparr>uuid1 = (\<lambda>w. ''u'' @ replicate (length (trace w)) CHR ''i''),
      parse_rule = (\<lambda>rule tags. if rule = PStr ''True'' then Inr True else Inl TypeError),
      generate_taskfile_route =
        (\<lambda>uid trigger rule tags target.
           [(''series_uid'', PStr uid), (''applied_rule'', PStr rule), (''target_name'', target)])\<rparr>"

section \<open>Properties\<close>

subsection \<open>Basic facts about the world and the filesystem\<close>

lemma outcome_world_simps [simp]:
  "outcome_world (Returns v w) = w" "outcome_world (Raises x w) = w"
  by (simp_all add: outcome_world_def)

lemma lookup_update:
  "lookup (AList.update p n f) q = (if q = [] then Some Dir else if q = p then Some n else lookup f q)"
  by (simp add: lookup_def update_conv')

lemma lookup_delete:
  "lookup (AList.delete p f) q = (if q = [] then Some Dir else if q = p then None else lookup f q)"
  by (simp add: lookup_def delete_conv')

lemma trace_emit [simp]: "trace (emit a w) = trace w @ [a]"
  by (simp add: emit_def)

lemma files_emit [simp]: "files (emit a w) = files w"
  by (simp add: emit_def)

lemma unlink_trace: "prefix (trace w) (trace (outcome_world (unlink p w)))"
  by (simp add: unlink_def split: option.splits node.splits)

lemma move_trace: "prefix (trace w) (trace (outcome_world (move src dst w)))"
  by (simp add: move_def Let_def split: option.splits node.splits)

lemma read_json_world: "outcome_world (read_json p w) = w"
  by (simp add: read_json_def split: option.splits node.splits fcontent.splits)

lemma write_json_trace: "prefix (trace w) (trace (outcome_world (write_json p d w)))"
  by (simp add: write_json_def)

lemma move_sent_directory_trace: "prefix (trace w) (trace (move_sent_directory e s d w))"
proof -
  have a: "prefix (trace w) (trace (outcome_world (case move s t w of
                        Raises x w1 \<Rightarrow> Raises x w1
                      | Returns r w1 \<Rightarrow> unlink u w1)))" for t u
    using move_trace[of w s t] unlink_trace[of "outcome_world (move s t w)" u]
    by (cases "move s t w") (auto intro: prefix_order.trans)
  have b: "prefix (trace w) (trace (case r of Returns u w2 \<Rightarrow> w2 | Raises x w2 \<Rightarrow> emit a w2))"
    if "prefix (trace w) (trace (outcome_world r))" for r :: "unit outcome" and a
    using that by (cases r) (auto intro: prefix_order.trans)
  show ?thesis
    unfolding move_sent_directory_def Let_def
    by (rule b) (simp add: a)
qed

lemma increase_retry_trace:
  "prefix (trace w) (trace (outcome_world (increase_retry e s m d w)))"
proof (cases "read_json (s @ [''target.json'']) w")
  case (Raises x w1)
  then show ?thesis using read_json_world[of "s @ [''target.json'']" w]
    by (simp add: increase_retry_def)
next
  case (Returns tj w1)
  then have w1: "w1 = w" using read_json_world[of "s @ [''target.json'']" w] by simp
  show ?thesis
    using write_json_trace[of w]
    by (simp add: increase_retry_def Returns w1 Let_def
             split: sum.splits bool.splits outcome.splits)
       (metis outcome_world_simps)
qed

lemmas demo_defs = demo_env_def demo_info_def demo_fs_def demo_world_def

lemmas fs_defs = lookup_def path_exists_def is_dir_def is_file_def basename_def missing_error_def
  listdir_def touch_def unlink_def mkdir_def read_json_def write_json_def rebase_def
  rename_tree_def proper_ancestors_def makedirs_parents_def move_def copy_def glob_dcm_def
  emit_def dict_get_def dict_item_def dict_set_def

lemmas send_defs = create_command_def move_sent_directory_def increase_retry_def execute_def
  DCMSEND_ERROR_CODES_def


subsection \<open>The transfer worker (dispatch/send.py)\<close>

text \<open>
  Claim C1, as amended. When the external transfer command exits with code 0 (and the
  descriptor has the three keys the command needs), \<open>execute\<close> counts the \<open>*.dcm\<close> entries
  of the folder and emits DISPATCH(series_uid, file_count, target_name), and that is all it
  does: it returns with the filesystem as the command left it. It neither moves the folder
  to the success folder nor removes \<open>.sending\<close>; the dispatcher's scan does both later,
  for a folder reported as sent.
\<close>

theorem execute_success:
  assumes "create_command target_info source_folder = Inr command"
    and "run_command e command (files w) = (0, f1)"
  shows "execute e target_info source_folder success_folder error_folder retry_max retry_delay w =
     Returns () (w\<lparr>files := f1,
        trace := trace w @
          [Send_Series_Event Series_DISPATCH
             (dict_get target_info ''series_uid'' (PStr ''series_uid-missing''))
             (PInt (int (length (glob_dcm f1 source_folder))))
             (dict_get target_info ''target_name'' (PStr ''target_name-missing''))
             (PStr [])]\<rparr>)"
  using assms by (simp add: execute_def Let_def emit_def)

theorem execute_success_witness:
  "execute (demo_env 0) demo_info [''out'', ''f1''] [''ok''] [''err''] 2 60 demo_world =
     Returns () (demo_world\<lparr>files := demo_fs,
        trace := [Send_Series_Event Series_DISPATCH (PStr ''ABC'') (PInt 1) (PStr ''t1'') (PStr [])]\<rparr>)"
proof -
  have c: "create_command demo_info [''out'', ''f1''] =
      Inr [Lit ''dcmsend '', Val (PStr ''h''), Lit '' '', Val (PInt 104), Lit '' +sd '',
              Val (PPath [''out'', ''f1'']), Lit '' -aet '', Val (PStr []), Lit '' -aec '',
              Val (PStr ''R''), Lit '' -nuc +sp *.dcm -to 60 +crf '',
              Val (PPath [''out'', ''f1'', ''sent.txt''])]"
    by (simp add: create_command_def dict_item_def dict_get_def demo_info_def)
  have r: "run_command (demo_env 0) c (files demo_world) = (0, demo_fs)" for c
    by (simp add: demo_env_def demo_world_def)
  have g: "glob_dcm demo_fs [''out'', ''f1''] = [''a.dcm'']"
    by (simp add: glob_dcm_def listdir_def demo_fs_def suffix_def)
  show ?thesis
    using execute_success[OF c r, of "[''ok'']" "[''err'']" 2 60]
    by (simp add: g dict_get_def demo_info_def demo_world_def)
qed


text \<open>
  Claim C1 as stated fails: after a transfer that exited with 0, the folder is still in
  the outgoing folder, \<open>.sending\<close> is still in it, and nothing is in the success folder.
\<close>

theorem execute_success_counterexample:
  "is_dir (files (outcome_world
       (execute (demo_env 0) demo_info [''out'', ''f1''] [''ok''] [''err''] 2 60 demo_world)))
     [''out'', ''f1'']
   \<and> path_exists (files (outcome_world
       (execute (demo_env 0) demo_info [''out'', ''f1''] [''ok''] [''err''] 2 60 demo_world)))
     [''out'', ''f1'', ''.sending'']
   \<and> \<not> path_exists (files (outcome_world
       (execute (demo_env 0) demo_info [''out'', ''f1''] [''ok''] [''err''] 2 60 demo_world)))
     [''ok'', ''f1'']"
  by (simp add: send_defs fs_defs demo_defs Let_def)

lemma except_CalledProcessError_trace:
  "prefix (trace w1 @
       [Send_Event Hermes_PROCESSING Severity_ERROR
          [Lit ''Error sending '', Val u, Lit '' to '', Val t],
        Send_Series_Event Series_ERROR u (PInt 0) t
          (case map_of DCMSEND_ERROR_CODES rc of None \<Rightarrow> PNone | Some s \<Rightarrow> PStr s)])
     (trace (outcome_world (except_CalledProcessError e rc u t s ef m d w1)))"
proof -
  define w3 where "w3 = emit (Send_Series_Event Series_ERROR u (PInt 0) t
          (case map_of DCMSEND_ERROR_CODES rc of None \<Rightarrow> PNone | Some s \<Rightarrow> PStr s))
       (emit (Send_Event Hermes_PROCESSING Severity_ERROR
          [Lit ''Error sending '', Val u, Lit '' to '', Val t]) w1)"
  have t3: "trace w3 = trace w1 @
       [Send_Event Hermes_PROCESSING Severity_ERROR
          [Lit ''Error sending '', Val u, Lit '' to '', Val t],
        Send_Series_Event Series_ERROR u (PInt 0) t
          (case map_of DCMSEND_ERROR_CODES rc of None \<Rightarrow> PNone | Some s \<Rightarrow> PStr s)]"
    by (simp add: w3_def)
  have "prefix (trace w3) (trace (outcome_world (except_CalledProcessError e rc u t s ef m d w1)))"
  proof (cases "increase_retry e s m d w3")
    case (Raises x w4)
    then show ?thesis using increase_retry_trace[of w3 e s m d]
      by (simp add: except_CalledProcessError_def Let_def w3_def)
  next
    case (Returns b w4)
    then have p: "prefix (trace w3) (trace w4)"
      using increase_retry_trace[of w3 e s m d] by simp
    show ?thesis
    proof (cases b)
      case True
      then show ?thesis
        using p unlink_trace[of w4 "s @ [''.sending'']"] Returns
        by (auto simp: except_CalledProcessError_def Let_def w3_def[symmetric]
                 intro: prefix_order.trans)
    next
      case False
      have "prefix (trace w4) (trace (move_sent_directory (iso_now e) s ef (emit a w4)))" for a
        using move_sent_directory_trace[of "emit a w4" "iso_now e" s ef]
        by (auto dest: append_prefixD)
      then have "prefix (trace w3) (trace (move_sent_directory (iso_now e) s ef (emit a w4)))" for a
        using p prefix_order.trans by blast
      then show ?thesis
        using Returns False
        by (simp add: except_CalledProcessError_def Let_def w3_def[symmetric] prefix_def)
           (metis append.assoc)
    qed
  qed
  then show ?thesis by (simp add: t3)
qed


text \<open>
  Claim C5, as amended. On a non-zero exit code the first two actions of \<open>execute\<close> are the
  PROCESSING/ERROR event and the ERROR series event, whose reason is the table's name for
  the codes 1, 21, 22, 23, 43, 60, 61, 62 and 65, and \<open>None\<close> for every other code
  (\<open>DCMSEND_ERROR_CODES.get(e.returncode, None)\<close>).
\<close>

theorem execute_error_reason:
  assumes "create_command target_info source_folder = Inr command"
    and "fst (run_command e command (files w)) = rc"
    and "rc \<noteq> 0"
  shows "prefix (trace w @
       [Send_Event Hermes_PROCESSING Severity_ERROR
          [Lit ''Error sending '',
           Val (dict_get target_info ''series_uid'' (PStr ''series_uid-missing'')),
           Lit '' to '',
           Val (dict_get target_info ''target_name'' (PStr ''target_name-missing''))],
        Send_Series_Event Series_ERROR
          (dict_get target_info ''series_uid'' (PStr ''series_uid-missing''))
          (PInt 0)
          (dict_get target_info ''target_name'' (PStr ''target_name-missing''))
          (if rc = 1 then PStr ''EXITCODE_COMMANDLINE_SYNTAX_ERROR''
           else if rc = 21 then PStr ''EXITCODE_NO_INPUT_FILES''
           else if rc = 22 then PStr ''EXITCODE_INVALID_INPUT_FILE''
           else if rc = 23 then PStr ''EXITCODE_NO_VALID_INPUT_FILES''
           else if rc = 43 then PStr ''EXITCODE_CANNOT_WRITE_REPORT_FILE''
           else if rc = 60 then PStr ''EXITCODE_CANNOT_INITIALIZE_NETWORK''
           else if rc = 61 then PStr ''EXITCODE_CANNOT_NEGOTIATE_ASSOCIATION''
           else if rc = 62 then PStr ''EXITCODE_CANNOT_SEND_REQUEST''
           else if rc = 65 then PStr ''EXITCODE_CANNOT_ADD_PRESENTATION_CONTEXT''
           else PNone)])
     (trace (outcome_world
        (execute e target_info source_folder success_folder error_folder retry_max retry_delay w)))"
proof -
  have m: "(case map_of DCMSEND_ERROR_CODES rc of None \<Rightarrow> PNone | Some s \<Rightarrow> PStr s) =
          (if rc = 1 then PStr ''EXITCODE_COMMANDLINE_SYNTAX_ERROR''
           else if rc = 21 then PStr ''EXITCODE_NO_INPUT_FILES''
           else if rc = 22 then PStr ''EXITCODE_INVALID_INPUT_FILE''
           else if rc = 23 then PStr ''EXITCODE_NO_VALID_INPUT_FILES''
           else if rc = 43 then PStr ''EXITCODE_CANNOT_WRITE_REPORT_FILE''
           else if rc = 60 then PStr ''EXITCODE_CANNOT_INITIALIZE_NETWORK''
           else if rc = 61 then PStr ''EXITCODE_CANNOT_NEGOTIATE_ASSOCIATION''
           else if rc = 62 then PStr ''EXITCODE_CANNOT_SEND_REQUEST''
           else if rc = 65 then PStr ''EXITCODE_CANNOT_ADD_PRESENTATION_CONTEXT''
           else PNone)"
    by (simp add: DCMSEND_ERROR_CODES_def)
  have e: "execute e target_info source_folder success_folder error_folder retry_max retry_delay w =
      except_CalledProcessError e rc
        (dict_get target_info ''series_uid'' (PStr ''series_uid-missing''))
        (dict_get target_info ''target_name'' (PStr ''target_name-missing''))
        source_folder error_folder retry_max retry_delay
        (w\<lparr>files := snd (run_command e command (files w))\<rparr>)"
    using assms by (simp add: execute_def Let_def)
  show ?thesis
    unfolding e m[symmetric]
    using except_CalledProcessError_trace
      [of "w\<lparr>files := snd (run_command e command (files w))\<rparr>"]
    by simp
qed

theorem execute_error_reason_witness:
  "prefix
       [Send_Event Hermes_PROCESSING Severity_ERROR
          [Lit ''Error sending '', Val (PStr ''ABC''), Lit '' to '', Val (PStr ''t1'')],
        Send_Series_Event Series_ERROR (PStr ''ABC'') (PInt 0) (PStr ''t1'')
          (PStr ''EXITCODE_CANNOT_SEND_REQUEST'')]
     (trace (outcome_world
        (execute (demo_env 62) demo_info [''out'', ''f1''] [''ok''] [''err''] 5 60 demo_world)))"
proof -
  have c: "create_command demo_info [''out'', ''f1''] =
      Inr [Lit ''dcmsend '', Val (PStr ''h''), Lit '' '', Val (PInt 104), Lit '' +sd '',
              Val (PPath [''out'', ''f1'']), Lit '' -aet '', Val (PStr []), Lit '' -aec '',
              Val (PStr ''R''), Lit '' -nuc +sp *.dcm -to 60 +crf '',
              Val (PPath [''out'', ''f1'', ''sent.txt''])]"
    by (simp add: create_command_def dict_item_def dict_get_def demo_info_def)
  have r: "fst (run_command (demo_env 62) c (files demo_world)) = 62" for c
    by (simp add: demo_env_def)
  have n: "(62::int) \<noteq> 0" by simp
  show ?thesis
    using execute_error_reason[OF c r n, of "[''ok'']" "[''err'']" 5 60]
    by (simp add: dict_get_def demo_info_def demo_world_def)
qed


text \<open>
  Claim C5 as stated fails at exit code 2, which is not in the table: the ERROR event
  carries \<open>None\<close>, and no event carries the reason UNKNOWN.
\<close>

theorem execute_unknown_code_counterexample:
  "trace (outcome_world
        (execute (demo_env 2) demo_info [''out'', ''f1''] [''ok''] [''err''] 5 60 demo_world)) =
     [Send_Event Hermes_PROCESSING Severity_ERROR
          [Lit ''Error sending '', Val (PStr ''ABC''), Lit '' to '', Val (PStr ''t1'')],
      Send_Series_Event Series_ERROR (PStr ''ABC'') (PInt 0) (PStr ''t1'') PNone,
      Fs_Write [''out'', ''f1'', ''target.json''],
      Fs_Unlink [''out'', ''f1'', ''.sending'']]
   \<and> Send_Series_Event Series_ERROR (PStr ''ABC'') (PInt 0) (PStr ''t1'') (PStr ''UNKNOWN'')
       \<notin> set (trace (outcome_world
        (execute (demo_env 2) demo_info [''out'', ''f1''] [''ok''] [''err''] 5 60 demo_world)))"
proof -
  have "trace (outcome_world
        (execute (demo_env 2) demo_info [''out'', ''f1''] [''ok''] [''err''] 5 60 demo_world)) =
     [Send_Event Hermes_PROCESSING Severity_ERROR
          [Lit ''Error sending '', Val (PStr ''ABC''), Lit '' to '', Val (PStr ''t1'')],
      Send_Series_Event Series_ERROR (PStr ''ABC'') (PInt 0) (PStr ''t1'') PNone,
      Fs_Write [''out'', ''f1'', ''target.json''],
      Fs_Unlink [''out'', ''f1'', ''.sending'']]"
    by (simp add: send_defs except_CalledProcessError_def fs_defs demo_defs Let_def)
  then show ?thesis by simp
qed



lemma unlink_keeps:
  "p \<noteq> q \<Longrightarrow> q \<noteq> [] \<Longrightarrow> lookup (files (outcome_world (unlink p w))) q = lookup (files w) q"
  by (simp add: unlink_def lookup_delete split: option.splits node.splits)






subsection \<open>The lock and the series assembler (routing/process_series.py, routing/route_series.py)\<close>

lemmas routing_defs = str_join_def scandir_def FileLock_init_def FileLock_free_def FileLock_del_def
  collect_series_def process_series_def quarantine_one_def process_error_files_def
  route_series_def str_truediv_def route_error_files_def outcome_world_def

lemmas demo_routing_defs = demo_constants_def demo_config_def demo_incoming_def




text \<open>
  Claim C3 fails on the code. No file of the incoming folder starts with \<open>ABC#\<close> and
  ends in \<open>.tags\<close>, and the lock \<open>in/ABC.lock\<close> is free. Both \<open>process_series\<close> and
  \<open>route_series\<close> create the lock, collect an empty list and raise \<open>IndexError\<close> at
  \<open>fileList[0]\<close>; they do not return. No event is emitted, and the lock file is removed
  only by the destructor of the lock object.
\<close>

theorem series_without_files_raises:
  "process_series (demo_config [] []) rest ''ABC'' demo_incoming =
     Raises IndexError
       (demo_incoming\<lparr>trace := [Fs_Touch [''in'', ''ABC.lock''], Fs_Unlink [''in'', ''ABC.lock'']]\<rparr>)
   \<and> route_series demo_constants (demo_config [] []) rest' ''ABC'' demo_incoming =
     Raises IndexError
       (demo_incoming\<lparr>trace := [Fs_Touch [''in'', ''ABC.lock''], Fs_Unlink [''in'', ''ABC.lock'']]\<rparr>)
   \<and> collect_series ''.tags'' ''ABC'' [''in''] (files demo_incoming) = []"
  by (simp add: routing_defs demo_routing_defs fs_defs Let_def suffix_def)

text \<open>
  The same happens for every series UID and every world in which the lock is free, the
  incoming folder exists and no file matches: the lock file is created, the subscript
  raises \<open>IndexError\<close>, and the destructor removes the lock file.
\<close>

lemma update_fresh: "k \<notin> fst ` set al \<Longrightarrow> AList.update k v al = al @ [(k, v)]"
  by (induction al) auto

lemma lock_name_no_tags: "\<not> suffix ''.tags'' (uid @ ''.lock'')"
  by (auto simp: suffix_def)

lemma series_without_files_general:
  assumes free: "\<not> path_exists (files w) (cfg_incoming_folder c @ [uid @ ''.lock''])"
    and dir: "is_dir (files w) (cfg_incoming_folder c)"
    and none: "collect_series ''.tags'' uid (cfg_incoming_folder c) (files w) = []"
  shows "process_series c rest uid w =
           Raises IndexError
             (w\<lparr>trace := trace w @ [Fs_Touch (cfg_incoming_folder c @ [uid @ ''.lock'']),
                                   Fs_Unlink (cfg_incoming_folder c @ [uid @ ''.lock''])]\<rparr>)"
proof -
  define inc where "inc = cfg_incoming_folder c"
  define lk where "lk = inc @ [uid @ ''.lock'']"
  define f1 where "f1 = AList.update lk (File (Raw [])) (files w)"
  have nk: "lk \<notin> fst ` set (files w)"
    using free by (auto simp: path_exists_def lookup_def lk_def inc_def map_of_eq_None_iff)
  have f1: "f1 = files w @ [(lk, File (Raw []))]"
    unfolding f1_def using nk by (rule update_fresh)
  have lkne: "lk \<noteq> []" by (simp add: lk_def)
  have ld: "listdir f1 inc = listdir (files w) inc @ [uid @ ''.lock'']"
    by (simp add: f1 listdir_def lk_def)
  have dir1: "is_dir f1 (inc @ [n]) = is_dir (files w) (inc @ [n])" if "n \<noteq> uid @ ''.lock''" for n
    using that by (simp add: is_dir_def f1_def lookup_update lk_def)
  have "filter (\<lambda>n. suffix ''.tags'' n \<and> prefix (uid @ ''#'') n \<and> \<not> is_dir f1 (inc @ [n]))
          (listdir f1 inc)
      = filter (\<lambda>n. suffix ''.tags'' n \<and> prefix (uid @ ''#'') n \<and> \<not> is_dir (files w) (inc @ [n]))
          (listdir (files w) inc)"
    unfolding ld using lock_name_no_tags[of uid] dir1
    by (auto intro!: filter_cong)
  then have c1: "collect_series ''.tags'' uid inc f1 = []"
    using none by (simp add: collect_series_def inc_def)
  have t: "touch lk w = Returns () (emit (Fs_Touch lk) (w\<lparr>files := f1\<rparr>))"
    using free dir by (simp add: touch_def lk_def inc_def f1_def)
  have sd: "scandir inc (emit (Fs_Touch lk) (w\<lparr>files := f1\<rparr>)) =
      Returns (listdir f1 inc) (emit (Fs_Touch lk) (w\<lparr>files := f1\<rparr>))"
    using dir by (cases "inc = []") (simp_all add: scandir_def is_dir_def inc_def f1_def lookup_update lk_def)
  have dl: "FileLock_del \<lparr>lockCreated = True, lockfile = lk\<rparr> (emit (Fs_Touch lk) (w\<lparr>files := f1\<rparr>))
      = w\<lparr>trace := trace w @ [Fs_Touch lk, Fs_Unlink lk]\<rparr>"
    using nk lkne
    by (simp add: FileLock_del_def FileLock_free_def unlink_def f1_def lookup_update emit_def
          outcome_world_def delete_update_same)
  show ?thesis
    using free t sd c1 dl
    by (simp add: process_series_def FileLock_init_def Let_def lk_def[symmetric] inc_def[symmetric])
qed

lemma route_series_without_files_general:
  assumes free: "\<not> path_exists (files w) (cfg_incoming_folder c @ [uid @ names_LOCK k])"
    and ext: "\<not> suffix (names_TAGS k) (uid @ names_LOCK k)"
    and dir: "is_dir (files w) (cfg_incoming_folder c)"
    and none: "collect_series (names_TAGS k) uid (cfg_incoming_folder c) (files w) = []"
  shows "route_series k c rest uid w =
           Raises IndexError
             (w\<lparr>trace := trace w @ [Fs_Touch (cfg_incoming_folder c @ [uid @ names_LOCK k]),
                                   Fs_Unlink (cfg_incoming_folder c @ [uid @ names_LOCK k])]\<rparr>)"
proof -
  define inc where "inc = cfg_incoming_folder c"
  define lk where "lk = inc @ [uid @ names_LOCK k]"
  define f1 where "f1 = AList.update lk (File (Raw [])) (files w)"
  have nk: "lk \<notin> fst ` set (files w)"
    using free by (auto simp: path_exists_def lookup_def lk_def inc_def map_of_eq_None_iff)
  have f1: "f1 = files w @ [(lk, File (Raw []))]"
    unfolding f1_def using nk by (rule update_fresh)
  have lkne: "lk \<noteq> []" by (simp add: lk_def)
  have ld: "listdir f1 inc = listdir (files w) inc @ [uid @ names_LOCK k]"
    by (simp add: f1 listdir_def lk_def)
  have dir1: "is_dir f1 (inc @ [n]) = is_dir (files w) (inc @ [n])" if "n \<noteq> uid @ names_LOCK k" for n
    using that by (simp add: is_dir_def f1_def lookup_update lk_def)
  have "filter (\<lambda>n. suffix (names_TAGS k) n \<and> prefix (uid @ ''#'') n \<and> \<not> is_dir f1 (inc @ [n]))
          (listdir f1 inc)
      = filter (\<lambda>n. suffix (names_TAGS k) n \<and> prefix (uid @ ''#'') n \<and> \<not> is_dir (files w) (inc @ [n]))
          (listdir (files w) inc)"
    unfolding ld using ext dir1
    by (auto intro!: filter_cong)
  then have c1: "collect_series (names_TAGS k) uid inc f1 = []"
    using none by (simp add: collect_series_def inc_def)
  have t: "touch lk w = Returns () (emit (Fs_Touch lk) (w\<lparr>files := f1\<rparr>))"
    using free dir by (simp add: touch_def lk_def inc_def f1_def)
  have sd: "scandir inc (emit (Fs_Touch lk) (w\<lparr>files := f1\<rparr>)) =
      Returns (listdir f1 inc) (emit (Fs_Touch lk) (w\<lparr>files := f1\<rparr>))"
    using dir by (cases "inc = []") (simp_all add: scandir_def is_dir_def inc_def f1_def lookup_update lk_def)
  have dl: "FileLock_del \<lparr>lockCreated = True, lockfile = lk\<rparr> (emit (Fs_Touch lk) (w\<lparr>files := f1\<rparr>))
      = w\<lparr>trace := trace w @ [Fs_Touch lk, Fs_Unlink lk]\<rparr>"
    using nk lkne
    by (simp add: FileLock_del_def FileLock_free_def unlink_def f1_def lookup_update emit_def
          outcome_world_def delete_update_same)
  show ?thesis
    using free t sd c1 dl
    by (simp add: route_series_def FileLock_init_def Let_def lk_def[symmetric] inc_def[symmetric])
qed

subsection \<open>The error quarantiner\<close>

text \<open>
  Claim C7 fails on \<open>route_error_files\<close>. The incoming folder holds the error file
  \<open>a.dcm.error\<close>, whose lock is free, and its payload \<open>a.dcm\<close>. The function raises
  \<open>TypeError\<close> when it builds the name of the lock file: nothing is locked, nothing is
  moved and no event is emitted.
\<close>

theorem route_error_files_raises:
  "route_error_files demo_constants (demo_config [] []) demo_incoming =
     Raises TypeError demo_incoming"
  by (simp add: routing_defs demo_routing_defs fs_defs Let_def suffix_def)

text \<open>
  The sibling \<open>process_error_files\<close>, which builds the same name with \<open>+ '/' +\<close>, does on
  the same folder what the claim says: lock, two moves, release, one aggregate event
  with the count 1.
\<close>

lemma process_error_files_demo:
  "process_error_files (demo_config [] []) demo_incoming =
     Returns ()
       \<lparr>files = [([''in''], Dir), ([''out''], Dir), ([''ok''], Dir), ([''err''], Dir),
                 ([''in'', ''XYZ#1.dcm''], File (Raw [])),
                 ([''in'', ''XYZ#1.tags''], File (Json [(''Modality'', PStr ''CT'')])),
                 ([''err'', ''a.dcm.error''], File (Raw [])),
                 ([''err'', ''a.dcm''], File (Raw [])),
                 ([''in'', ''held.lock''], File (Raw []))],
        trace = [Fs_Touch [''in'', ''a.dcm.error.lock''],
                 Fs_Move [''in'', ''a.dcm.error''] [''err'', ''a.dcm.error''],
                 Fs_Move [''in'', ''a.dcm''] [''err'', ''a.dcm''],
                 Fs_Unlink [''in'', ''a.dcm.error.lock''],
                 Send_Event Hermes_PROCESSING Severity_ERROR
                   [Lit ''Error parsing '', Val (PInt 1), Lit '' incoming files'']]\<rparr>"
  by (simp add: routing_defs demo_routing_defs fs_defs Let_def suffix_def)

subsection \<open>The dispatcher scan (dispatcher.py)\<close>



lemma quiet_simps [simp]:
  "quiet []" "quiet (a # xs) = (\<not> is_enqueue a \<and> \<not> transfer_event a \<and> quiet xs)"
  "quiet (xs @ ys) = (quiet xs \<and> quiet ys)"
  by (auto simp: quiet_def)





















lemma map_of_rename_tree_dst:
  "dst \<notin> fst ` set g \<Longrightarrow> map_of (rename_tree src dst g) dst = map_of g src"
proof (induction g)
  case Nil
  then show ?case by (simp add: rename_tree_def)
next
  case (Cons e g)
  obtain p v where e: "e = (p, v)" by (cases e)
  have pd: "p \<noteq> dst" and ih: "map_of (rename_tree src dst g) dst = map_of g src"
    using Cons e by (auto simp: rename_tree_def)
  show ?case
  proof (cases "p = src")
    case True
    then show ?thesis using e by (simp add: rename_tree_def rebase_def)
  next
    case False
    then have "rebase src dst p \<noteq> dst"
      using pd by (auto simp: rebase_def prefix_def)
    then show ?thesis using False ih e by (simp add: rename_tree_def)
  qed
qed

lemma map_of_rename_tree_src:
  "\<not> prefix dst src \<Longrightarrow> map_of (rename_tree src dst g) src = None"
proof (induction g)
  case Nil
  then show ?case by (simp add: rename_tree_def)
next
  case (Cons e g)
  obtain p v where e: "e = (p, v)" by (cases e)
  have "rebase src dst p \<noteq> src"
    using Cons.prems by (auto simp: rebase_def prefix_def)
  then show ?case using Cons e by (simp add: rename_tree_def)
qed

lemma unlink_keeps_none:
  "lookup (files w) q = None \<Longrightarrow> lookup (files (outcome_world (unlink p w))) q = None"
  by (cases "q = []")
     (auto simp: unlink_def lookup_def delete_conv' split: option.splits node.splits)

lemma move_file_into_free_name:
  assumes src: "lookup (files w) src = Some (File content)"
    and parent: "is_dir (files w) (butlast dst)"
    and free: "\<not> path_exists (files w) dst"
    and ne: "dst \<noteq> []" "\<not> prefix dst src"
  shows "\<exists>w1. move src dst w = Returns dst w1
           \<and> lookup (files w1) dst = Some (File content) \<and> lookup (files w1) src = None"
proof -
  have nd: "\<not> is_dir (files w) dst" using free by (simp add: is_dir_def path_exists_def)
  have s0: "src \<noteq> []" using src by (auto simp: lookup_def)
  have dk: "dst \<notin> fst ` set (AList.delete dst (files w))"
    by (simp add: AList.delete_eq image_iff) 
  have m: "map_of (AList.delete dst (files w)) src = Some (File content)"
    using src s0 ne free by (auto simp: lookup_def delete_conv' path_exists_def)
  have "move src dst w = Returns dst (emit (Fs_Move src dst)
           (w\<lparr>files := rename_tree src dst (AList.delete dst (files w))\<rparr>))"
    using src parent nd by (simp add: move_def Let_def)
  moreover have "lookup (rename_tree src dst (AList.delete dst (files w))) dst = Some (File content)"
    using map_of_rename_tree_dst[OF dk, of src] m ne by (simp add: lookup_def)
  moreover have "lookup (rename_tree src dst (AList.delete dst (files w))) src = None"
    using map_of_rename_tree_src[OF ne(2)] s0 by (simp add: lookup_def)
  ultimately show ?thesis by simp
qed

lemma move_sent_directory_files:
  assumes "\<not> path_exists (files w) (dest @ [name])"
    and "move (src0 @ [name]) (dest @ [name]) w = Returns r w1"
  shows "files (move_sent_directory stamp (src0 @ [name]) dest w) =
         files (outcome_world (unlink (dest @ [name, ''.sending'']) w1))"
proof (cases "unlink (dest @ [name, ''.sending'']) w1")
  case (Returns u w2)
  then show ?thesis using assms
    by (simp add: move_sent_directory_def basename_def Let_def)
next
  case (Raises x w2)
  then show ?thesis using assms
    by (simp add: move_sent_directory_def basename_def Let_def)
qed

lemma zone_not_prefix:
  assumes "\<not> prefix succ out"
  shows "\<not> prefix (succ @ [name]) (out @ [name])"
proof
  assume p: "prefix (succ @ [name]) (out @ [name])"
  then have "prefix succ (out @ [name])"
    using append_prefixD by blast
  then have "succ = out @ [name] \<or> prefix succ out"
    by (simp add: prefix_snoc)
  then show False
  proof
    assume "succ = out @ [name]"
    then have "length (succ @ [name]) > length (out @ [name])" by simp
    then show False using p prefix_length_le by fastforce
  next
    assume "prefix succ out"
    then show False using assms by simp
  qed
qed


text \<open>
  Claim C10. For every entry that the sent-check reports as sent, the scan takes the
  branch of already-sent folders, whether or not the entry is a directory: the first
  branch is closed to it, and the test \<open>entry.is_dir\<close> of the second is a method object
  and so always true. The branch reads the series UID from the validated descriptor
  (\<open>AttributeError\<close> when that is \<open>None\<close>), hands the entry to
  \<open>_move_sent_directory\<close> and emits MOVE. In particular a plain file reported as sent,
  with a descriptor and a free name in the success folder, ends in the success folder.
\<close>

theorem sent_entry_is_moved:
  assumes sent: "has_been_send d (cfg_outgoing_folder c @ [name]) (files w)"
  shows "dispatch_entry d c name w =
           (case is_target_json_valid d (cfg_outgoing_folder c @ [name]) (files w) of
              None \<Rightarrow> Raises AttributeError w
            | Some target_json \<Rightarrow>
                Returns ()
                  (emit (Send_Series_Event Series_MOVE
                           (dict_get target_json ''series_uid'' (PStr ''series_uid-missing''))
                           (PInt 0) (PPath (cfg_success_folder c)) (PStr []))
                     (move_sent_directory (iso_at d (cfg_outgoing_folder c @ [name]))
                        (cfg_outgoing_folder c @ [name]) (cfg_success_folder c) w)))
         \<and> (is_target_json_valid d (cfg_outgoing_folder c @ [name]) (files w) = Some target_json
              \<and> lookup (files w) (cfg_outgoing_folder c @ [name]) = Some (File content)
              \<and> is_dir (files w) (cfg_success_folder c)
              \<and> \<not> path_exists (files w) (cfg_success_folder c @ [name])
              \<and> \<not> prefix (cfg_success_folder c) (cfg_outgoing_folder c)
            \<longrightarrow> lookup (files (outcome_world (dispatch_entry d c name w)))
                   (cfg_success_folder c @ [name]) = Some (File content)
                \<and> lookup (files (outcome_world (dispatch_entry d c name w)))
                   (cfg_outgoing_folder c @ [name]) = None)"
proof -
  define src where "src = cfg_outgoing_folder c @ [name]"
  define dst where "dst = cfg_success_folder c @ [name]"
  have r: "ready_target_info d src (files w) = None"
    using sent by (simp add: ready_target_info_def src_def)
  have e: "dispatch_entry d c name w =
           (case is_target_json_valid d src (files w) of
              None \<Rightarrow> Raises AttributeError w
            | Some target_json \<Rightarrow>
                Returns ()
                  (emit (Send_Series_Event Series_MOVE
                           (dict_get target_json ''series_uid'' (PStr ''series_uid-missing''))
                           (PInt 0) (PPath (cfg_success_folder c)) (PStr []))
                     (move_sent_directory (iso_at d src) src (cfg_success_folder c) w)))"
    using r sent
    by (simp add: dispatch_entry_def method_truth_def Let_def src_def split: option.splits)
  have f: "lookup (files (outcome_world (dispatch_entry d c name w))) dst = Some (File content)
       \<and> lookup (files (outcome_world (dispatch_entry d c name w))) src = None"
    if v: "is_target_json_valid d src (files w) = Some target_json"
      and a: "lookup (files w) src = Some (File content)"
      "is_dir (files w) (cfg_success_folder c)"
      "\<not> path_exists (files w) dst"
      "\<not> prefix (cfg_success_folder c) (cfg_outgoing_folder c)"
  proof -
    have np: "\<not> prefix dst src"
      unfolding src_def dst_def using a(4) by (rule zone_not_prefix)
    have par: "is_dir (files w) (butlast dst)" using a(2) by (simp add: dst_def)
    have dne: "dst \<noteq> []" by (simp add: dst_def)
    obtain w1 where w1: "move src dst w = Returns dst w1"
      "lookup (files w1) dst = Some (File content)" "lookup (files w1) src = None"
      using move_file_into_free_name[OF a(1) par a(3) dne np] by blast
    define w2 where "w2 = outcome_world (unlink (dst @ [''.sending'']) w1)"
    have k1: "lookup (files w2) dst = Some (File content)"
      unfolding w2_def using w1(2) dne unlink_keeps[of "dst @ [''.sending'']" dst w1] by simp
    have k2: "lookup (files w2) src = None"
      unfolding w2_def using w1(3) by (rule unlink_keeps_none)
    have m: "files (move_sent_directory (iso_at d src) src (cfg_success_folder c) w) = files w2"
      using move_sent_directory_files[of w "cfg_success_folder c" name "cfg_outgoing_folder c"
              dst w1 "iso_at d src"] a(3) w1(1)
      by (simp add: src_def dst_def w2_def)
    show ?thesis using e v m k1 k2 by simp
  qed
  show ?thesis
  proof (rule conjI)
    show "dispatch_entry d c name w =
           (case is_target_json_valid d (cfg_outgoing_folder c @ [name]) (files w) of
              None \<Rightarrow> Raises AttributeError w
            | Some target_json \<Rightarrow>
                Returns ()
                  (emit (Send_Series_Event Series_MOVE
                           (dict_get target_json ''series_uid'' (PStr ''series_uid-missing''))
                           (PInt 0) (PPath (cfg_success_folder c)) (PStr []))
                     (move_sent_directory (iso_at d (cfg_outgoing_folder c @ [name]))
                        (cfg_outgoing_folder c @ [name]) (cfg_success_folder c) w)))"
      using e unfolding src_def .
    show "is_target_json_valid d (cfg_outgoing_folder c @ [name]) (files w) = Some target_json
              \<and> lookup (files w) (cfg_outgoing_folder c @ [name]) = Some (File content)
              \<and> is_dir (files w) (cfg_success_folder c)
              \<and> \<not> path_exists (files w) (cfg_success_folder c @ [name])
              \<and> \<not> prefix (cfg_success_folder c) (cfg_outgoing_folder c)
            \<longrightarrow> lookup (files (outcome_world (dispatch_entry d c name w)))
                   (cfg_success_folder c @ [name]) = Some (File content)
                \<and> lookup (files (outcome_world (dispatch_entry d c name w)))
                   (cfg_outgoing_folder c @ [name]) = None"
      using f unfolding src_def dst_def by blast
  qed
qed

theorem sent_entry_is_moved_witness:
  "\<not> is_dir (files demo_outgoing) [''out'', ''stray'']
   \<and> dispatch_entry (demo_dispatcher True) (demo_config [] []) ''stray'' demo_outgoing =
       Returns ()
         (emit (Send_Series_Event Series_MOVE (PStr ''series_uid-missing'') (PInt 0)
                  (PPath [''ok'']) (PStr []))
            (move_sent_directory ''T'' [''out'', ''stray''] [''ok''] demo_outgoing))
   \<and> lookup (files (outcome_world
         (dispatch_entry (demo_dispatcher True) (demo_config [] []) ''stray'' demo_outgoing)))
       [''ok'', ''stray''] = Some (File (Raw ''x''))
   \<and> lookup (files (outcome_world
         (dispatch_entry (demo_dispatcher True) (demo_config [] []) ''stray'' demo_outgoing)))
       [''out'', ''stray''] = None"
proof -
  have c: "cfg_outgoing_folder (demo_config [] []) = [''out'']"
    "cfg_success_folder (demo_config [] []) = [''ok'']"
    by (simp_all add: demo_config_def)
  have sent: "has_been_send (demo_dispatcher True) (cfg_outgoing_folder (demo_config [] []) @ [''stray''])
      (files demo_outgoing)"
    by (simp add: demo_dispatcher_def c)
  have valid: "is_target_json_valid (demo_dispatcher True)
      (cfg_outgoing_folder (demo_config [] []) @ [''stray'']) (files demo_outgoing) = Some []"
    by (simp add: demo_dispatcher_def demo_status_valid_def c lookup_def demo_outgoing_def)
  have h: "is_target_json_valid (demo_dispatcher True)
        (cfg_outgoing_folder (demo_config [] []) @ [''stray'']) (files demo_outgoing) = Some []
      \<and> lookup (files demo_outgoing) (cfg_outgoing_folder (demo_config [] []) @ [''stray''])
        = Some (File (Raw ''x''))
      \<and> is_dir (files demo_outgoing) (cfg_success_folder (demo_config [] []))
      \<and> \<not> path_exists (files demo_outgoing) (cfg_success_folder (demo_config [] []) @ [''stray''])
      \<and> \<not> prefix (cfg_success_folder (demo_config [] [])) (cfg_outgoing_folder (demo_config [] []))"
    using valid by (simp add: c lookup_def is_dir_def path_exists_def demo_outgoing_def)
  have nd: "\<not> is_dir (files demo_outgoing) [''out'', ''stray'']"
    by (simp add: lookup_def is_dir_def demo_outgoing_def)
  have i: "iso_at (demo_dispatcher True) p = ''T''" for p
    by (simp add: demo_dispatcher_def)
  note r = sent_entry_is_moved[OF sent, where content = "Raw ''x''" and target_json = "[]"]
  have L: "lookup (files (outcome_world
         (dispatch_entry (demo_dispatcher True) (demo_config [] []) ''stray'' demo_outgoing)))
       [''ok'', ''stray''] = Some (File (Raw ''x''))
   \<and> lookup (files (outcome_world
         (dispatch_entry (demo_dispatcher True) (demo_config [] []) ''stray'' demo_outgoing)))
       [''out'', ''stray''] = None"
    using mp[OF conjunct2[OF r] h] by (simp add: c)
  have E: "dispatch_entry (demo_dispatcher True) (demo_config [] []) ''stray'' demo_outgoing =
       Returns ()
         (emit (Send_Series_Event Series_MOVE (PStr ''series_uid-missing'') (PInt 0)
                  (PPath [''ok'']) (PStr []))
            (move_sent_directory ''T'' [''out'', ''stray''] [''ok''] demo_outgoing))"
    using conjunct1[OF r] valid by (simp add: c i dict_get_def)
  show ?thesis
    using nd L E by blast
qed

subsection \<open>Series-level staging (routing/route_series.py)\<close>

lemmas staging_defs = rule_of_def trigger_serieslevel_notification_reception_def dict_eq_int_def
  len_of_bool_def push_serieslevel_notification_def push_pair_def stage_target_def
  push_serieslevel_outgoing_def push_serieslevel_routing_def get_routing_targets_def

lemmas demo_staging_defs = demo_rules_def demo_targets_def demo_routing_env_def
  demo_constants_def demo_config_def demo_incoming_def


text \<open>
  Claim C4 fails on the code. With the notification rule \<open>note\<close> as the only triggered
  rule, the notification pass fires the reception webhook and then raises \<open>TypeError\<close> at
  \<open>len(triggered_rules==1)\<close>: the pass does not complete, and the files of the series
  are still in the incoming folder.
\<close>

theorem notification_pass_raises:
  "push_serieslevel_notification demo_constants (demo_config demo_rules demo_targets)
     [(''note'', ''note'')] [''XYZ#1''] ''XYZ'' [(''Modality'', PStr ''CT'')] demo_incoming =
   Raises TypeError
     (emit (Send_Webhook (PStr ''http://hook'') (PStr []) ''RECEPTION'') demo_incoming)
   \<and> path_exists (files (emit (Send_Webhook (PStr ''http://hook'') (PStr []) ''RECEPTION'')
                              demo_incoming)) [''in'', ''XYZ#1.dcm'']"
  by (simp add: staging_defs demo_staging_defs dict_get_def emit_def path_exists_def lookup_def)


text \<open>
  The same holds whenever some triggered rule is a series-level notification rule: the
  pass raises \<open>TypeError\<close> at the first such rule and has not touched the filesystem.
\<close>

lemma notification_loop_raises:
  assumes "\<forall>r\<in>set rules. map_of (cfg_rules c) r \<noteq> None"
    and "\<exists>r\<in>set rules. \<exists>d. map_of (cfg_rules c) r = Some d
            \<and> dict_get d (rule_ACTION_TRIGGER k) (PStr (options_SERIES k)) = PStr (options_SERIES k)
            \<and> dict_get d (rule_ACTION k) (PStr []) = PStr (actions_NOTIFICATION k)"
  shows "\<exists>w1. notification_loop k c triggered_rules rules file_list tags_list w = Raises TypeError w1
            \<and> files w1 = files w"
  using assms
proof (induction rules)
  case Nil
  then show ?case by simp
next
  case (Cons r rules)
  obtain d where d: "map_of (cfg_rules c) r = Some d" using Cons.prems(1) by auto
  show ?case
  proof (cases "dict_get d (rule_ACTION_TRIGGER k) (PStr (options_SERIES k)) = PStr (options_SERIES k)
            \<and> dict_get d (rule_ACTION k) (PStr []) = PStr (actions_NOTIFICATION k)")
    case True
    then show ?thesis using d
      by (simp add: rule_of_def trigger_serieslevel_notification_reception_def len_of_bool_def)
  next
    case False
    then have "\<exists>r\<in>set rules. \<exists>d. map_of (cfg_rules c) r = Some d
            \<and> dict_get d (rule_ACTION_TRIGGER k) (PStr (options_SERIES k)) = PStr (options_SERIES k)
            \<and> dict_get d (rule_ACTION k) (PStr []) = PStr (actions_NOTIFICATION k)"
      using Cons.prems(2) d by auto
    then show ?thesis using Cons.IH Cons.prems(1) False d
      by (auto simp: rule_of_def)
  qed
qed

subsection \<open>The routing pass: one outgoing folder for each target\<close>


lemma step_within_trans:
  assumes "step_within t m1 r1 w w1" and "step_within t m2 r2 w1 w2"
  shows "step_within t (m1 + m2) (r1 + r2) w w2"
proof -
  obtain d1 where d1: "trace w1 = trace w @ d1" using assms(1) by (auto simp: step_within_def prefix_def)
  obtain d2 where d2: "trace w2 = trace w1 @ d2" using assms(2) by (auto simp: step_within_def prefix_def)
  show ?thesis
    using assms d1 d2
    by (simp add: step_within_def trace_added_def mkdir_count_def route_count_def)
qed














lemma step_within_plain_then:
  "step_within t 0 0 w w1 \<Longrightarrow> step_within t m r w1 w2 \<Longrightarrow> step_within t m r w w2"
  using step_within_trans[of t 0 0 w w1 m r w2] by simp


lemma step_within_emit_move [simp]:
  "step_within t 0 0 w (emit (Send_Series_Event Series_MOVE u n f x) w)"
  by (simp add: step_within_def trace_added_def mkdir_count_def route_count_def)

lemma step_within_emit_webhook [simp]:
  "step_within t 0 0 w (emit (Send_Webhook a b x) w)"
  by (simp add: step_within_def trace_added_def mkdir_count_def route_count_def)













text \<open>
  In the example the rules \<open>ra\<close> and \<open>rb\<close> both route to \<open>t1\<close>: the staging emits
  exactly one ROUTE event for \<open>t1\<close> and makes two folders, one for \<open>t1\<close> and one for
  \<open>t2\<close>.
\<close>

lemma demo_staging_counts:
  "route_count (PStr ''t1'')
     (trace (push_serieslevel_outgoing demo_constants (demo_config demo_rules demo_targets)
              demo_routing_env [(''ra'', ''ra''), (''rb'', ''rb''), (''rc'', ''rc'')]
              [''XYZ#1''] ''XYZ'' [(''Modality'', PStr ''CT'')]
              [(PStr ''t1'', ''rb''), (PStr ''t2'', ''rc'')]
              (demo_incoming\<lparr>trace := []\<rparr>))) = 1
   \<and> mkdir_count
     (trace (push_serieslevel_outgoing demo_constants (demo_config demo_rules demo_targets)
              demo_routing_env [(''ra'', ''ra''), (''rb'', ''rb''), (''rc'', ''rc'')]
              [''XYZ#1''] ''XYZ'' [(''Modality'', PStr ''CT'')]
              [(PStr ''t1'', ''rb''), (PStr ''t2'', ''rc'')]
              (demo_incoming\<lparr>trace := []\<rparr>))) = 2"
  by code_simp


end
